theory Spec2Isabelle
  imports Complex_Main
begin

section \<open>Python values, dictionaries and exceptions\<close>

text \<open>
  The collaborator (yt-dlp) hands the program dictionaries whose values are strings,
  numbers or \<open>None\<close>.  Numbers are kept exact (a rational stands for a Python int or
  float); a key may be absent, or present with the value \<open>None\<close>: the two are kept
  apart, since \<open>d.get(k, default)\<close> only substitutes the default for an absent key.
\<close>

datatype pyval = PNone | PStr string | PNum rat

type_synonym pydict = "string \<Rightarrow> pyval option"

datatype py_error = TypeError | ValueError | IndexError | KeyError | AttributeError
  | UnboundLocalError | ZeroDivisionError | OverflowError | OSError | DownloadError
  | StreamlitAPIException

definition dict_get :: "pydict \<Rightarrow> string \<Rightarrow> pyval \<Rightarrow> pyval" where
  \<comment> \<open>\<open>d.get(k, default)\<close>\<close>
  "dict_get d k dflt = (case d k of None \<Rightarrow> dflt | Some v \<Rightarrow> v)"

fun truthy :: "pyval \<Rightarrow> bool" where
  \<comment> \<open>Python truthiness of a value used as a condition.\<close>
  "truthy PNone = False"
| "truthy (PStr s) = (s \<noteq> [])"
| "truthy (PNum n) = (n \<noteq> 0)"

definition list_item :: "'a list \<Rightarrow> int \<Rightarrow> py_error + 'a" where
  \<comment> \<open>\<open>xs[i]\<close>; IndexError outside \<open>-len(xs) .. len(xs) - 1\<close>\<close>
  "list_item xs i =
     (if 0 \<le> i \<and> i < int (length xs) then Inr (xs ! nat i)
      else if i < 0 \<and> - int (length xs) \<le> i then Inr (xs ! nat (int (length xs) + i))
      else Inl IndexError)"

section \<open>Format Catalog Builder: \<open>get_available_formats\<close> (downloader.py)\<close>

datatype size_str = SizeUnknown | SizeMB rat
  \<comment> \<open>\<open>"Unknown"\<close>, or the number of megabytes that \<open>f"{filesize/(1024*1024):.1f}MB"\<close> prints\<close>

record format_info =
  format_id :: pyval
  ext :: pyval
  resolution :: pyval
  fps :: pyval
  filesize :: size_str
  has_video :: bool
  has_audio :: bool

definition FLOAT_LIMIT :: rat where
  \<comment> \<open>the least magnitude that no longer rounds to a finite double\<close>
  "FLOAT_LIMIT = 2 ^ 1024 - 2 ^ 970"

definition div_MB :: "pyval \<Rightarrow> py_error + rat" where
  \<comment> \<open>\<open>v / (1024 * 1024)\<close>: TypeError for a value that is not a number, OverflowError
      for an int whose quotient is too large for a float (a float never is that large).
      The quotient is kept exact.\<close>
  "div_MB v =
     (case v of
        PNum x \<Rightarrow> if FLOAT_LIMIT \<le> \<bar>x / (1024 * 1024)\<bar> then Inl OverflowError
                  else Inr (x / (1024 * 1024))
      | _ \<Rightarrow> Inl TypeError)"

definition filesize_str :: "pyval \<Rightarrow> py_error + size_str" where
  \<comment> \<open>line 51\<close>
  "filesize_str fs = (if truthy fs then map_sum id SizeMB (div_MB fs) else Inr SizeUnknown)"

definition format_entry :: "pydict \<Rightarrow> py_error + format_info option" where
  \<comment> \<open>The body of the loop at lines 44-70: \<open>None\<close> is the \<open>continue\<close> of line 57.\<close>
  "format_entry f =
     (let fid = dict_get f ''format_id'' (PStr ''N/A'');
          ex = dict_get f ''ext'' (PStr ''N/A'');
          res = dict_get f ''resolution'' (PStr ''N/A'');
          fp = dict_get f ''fps'' (PStr ''N/A'');
          fsize = dict_get f ''filesize'' PNone
      in case filesize_str fsize of
           Inl e \<Rightarrow> Inl e
         | Inr fstr \<Rightarrow>
            (let vcodec = dict_get f ''vcodec'' (PStr ''N/A'');
                 acodec = dict_get f ''acodec'' (PStr ''N/A'')
             in if vcodec = PStr ''none'' \<and> \<not> (acodec \<noteq> PStr ''none'' \<and> ex = PStr ''mp3'')
                then Inr None
                else Inr (Some \<lparr> format_id = fid, ext = ex, resolution = res, fps = fp,
                                 filesize = fstr,
                                 has_video = (vcodec \<noteq> PStr ''none''),
                                 has_audio = (acodec \<noteq> PStr ''none'') \<rparr>)))"

fun collect_formats :: "pydict list \<Rightarrow> format_info list \<Rightarrow> py_error + format_info list" where
  \<comment> \<open>The loop itself; the second argument is the list \<open>formats\<close> built so far.\<close>
  "collect_formats [] formats = Inr formats"
| "collect_formats (f # fs) formats =
     (case format_entry f of
        Inl e \<Rightarrow> Inl e
      | Inr None \<Rightarrow> collect_formats fs formats
      | Inr (Some format_info) \<Rightarrow> collect_formats fs (formats @ [format_info]))"

record video_info =
  info_title :: "pyval option"
  info_duration :: "pyval option"
  strftime_error :: "py_error option"
  info_formats :: "pydict list option"

text \<open>
  The entries \<open>title\<close>, \<open>duration\<close> and \<open>formats\<close> of the dictionary that
  \<open>extract_info\<close> returns, \<open>None\<close> for an absent key.  Whether
  \<open>datetime.fromtimestamp(duration).strftime("%M:%S")\<close> accepts a number depends on the
  platform (its range of timestamps, the local time zone): \<open>strftime_error\<close> is the
  exception it raises for this duration, if any.
\<close>

definition duration_str :: "video_info \<Rightarrow> py_error option" where
  \<comment> \<open>Lines 36-37: the exception raised there, if any.  A duration that is \<open>None\<close>, 0
      or absent prints as \<open>Unknown\<close>; \<open>fromtimestamp\<close> of a string is a TypeError.\<close>
  "duration_str info =
     (let duration = (case info_duration info of None \<Rightarrow> PNone | Some v \<Rightarrow> v)
      in if truthy duration
         then (case duration of PNum t \<Rightarrow> strftime_error info | _ \<Rightarrow> Some TypeError)
         else None)"

record catalog =
  cat_title :: pyval
  cat_formats :: "format_info list"

definition get_available_formats :: "py_error + video_info \<Rightarrow> catalog option" where
  \<comment> \<open>The argument is what \<open>ydl.extract_info(url, download=False)\<close> does: raise or return.
      Every exception ends in \<open>return None\<close> (lines 74-76).  The \<open>print\<close> calls of lines
      39-41 interpolate without a format spec and are left out.\<close>
  "get_available_formats extracted =
     (case extracted of
        Inl e \<Rightarrow> None
      | Inr info \<Rightarrow>
         (let video_title = (case info_title info of None \<Rightarrow> PStr ''Unknown Title'' | Some t \<Rightarrow> t)
          in case duration_str info of
               Some e \<Rightarrow> None
             | None \<Rightarrow>
                 (case collect_formats (case info_formats info of None \<Rightarrow> [] | Some fs \<Rightarrow> fs) [] of
                    Inl e \<Rightarrow> None
                  | Inr formats \<Rightarrow> Some \<lparr> cat_title = video_title, cat_formats = formats \<rparr>)))"

text \<open>What the spec calls decodable tracks, read off a raw descriptor as the code does.\<close>

definition raw_has_video :: "pydict \<Rightarrow> bool" where
  "raw_has_video f = (dict_get f ''vcodec'' (PStr ''N/A'') \<noteq> PStr ''none'')"

definition raw_has_audio :: "pydict \<Rightarrow> bool" where
  "raw_has_audio f = (dict_get f ''acodec'' (PStr ''N/A'') \<noteq> PStr ''none'')"

definition raw_is_mp3 :: "pydict \<Rightarrow> bool" where
  "raw_is_mp3 f = (dict_get f ''ext'' (PStr ''N/A'') = PStr ''mp3'')"

definition kept :: "pydict \<Rightarrow> bool" where
  \<comment> \<open>the negation of the condition of line 56\<close>
  "kept f = (raw_has_video f \<or> (raw_has_audio f \<and> raw_is_mp3 f))"

section \<open>Partition and display: \<open>display_formats_and_select\<close>, and \<open>main\<close> of app.py\<close>

fun split_formats ::
  "format_info list \<Rightarrow> format_info list \<Rightarrow> format_info list
     \<Rightarrow> format_info list \<times> format_info list" where
  \<comment> \<open>The loop at lines 92-96, with \<open>video_formats\<close> and \<open>audio_formats\<close> as accumulators.\<close>
  "split_formats [] video_formats audio_formats = (video_formats, audio_formats)"
| "split_formats (fmt # rest) video_formats audio_formats =
     (if has_video fmt then split_formats rest (video_formats @ [fmt]) audio_formats
      else if has_audio fmt \<and> \<not> has_video fmt
           then split_formats rest video_formats (audio_formats @ [fmt])
      else split_formats rest video_formats audio_formats)"

definition app_video_formats :: "format_info list \<Rightarrow> format_info list" where
  \<comment> \<open>app.py line 84\<close>
  "app_video_formats formats = filter (\<lambda>f. has_video f) formats"

definition app_audio_formats :: "format_info list \<Rightarrow> format_info list" where
  \<comment> \<open>app.py line 85\<close>
  "app_audio_formats formats = filter (\<lambda>f. \<not> has_video f \<and> has_audio f) formats"


datatype cell = CellVal pyval | CellSize size_str

record row =
  col_id :: nat
  col_format_id :: cell
  col_resolution :: cell
  col_fps :: cell
  col_size :: cell
  col_type :: cell
  col_content :: string

definition video_row :: "nat \<Rightarrow> format_info \<Rightarrow> row" where
  \<comment> \<open>downloader.py lines 100-103, app.py lines 92-103\<close>
  "video_row i fmt =
     \<lparr> col_id = i, col_format_id = CellVal (format_id fmt),
       col_resolution = CellVal (resolution fmt), col_fps = CellVal (fps fmt),
       col_size = CellSize (filesize fmt), col_type = CellVal (ext fmt),
       col_content = (if has_audio fmt then ''Video'' @ ''+Audio'' else ''Video'') \<rparr>"

definition audio_row :: "nat \<Rightarrow> format_info \<Rightarrow> row" where
  \<comment> \<open>downloader.py line 109, app.py lines 108-116; the argument is \<open>idx\<close>\<close>
  "audio_row idx fmt =
     \<lparr> col_id = idx, col_format_id = CellVal (format_id fmt),
       col_resolution = CellVal (PStr ''audio only''), col_fps = CellVal (PStr ''-''),
       col_size = CellSize (filesize fmt), col_type = CellVal (ext fmt),
       col_content = ''Audio only'' \<rparr>"

definition best_row :: "nat \<Rightarrow> row" where
  \<comment> \<open>downloader.py line 113, app.py lines 119-127\<close>
  "best_row best_idx =
     \<lparr> col_id = best_idx, col_format_id = CellVal (PStr ''best''),
       col_resolution = CellVal (PStr ''best''), col_fps = CellVal (PStr ''auto''),
       col_size = CellVal (PStr ''auto''), col_type = CellVal (PStr ''mp4''),
       col_content = ''Best quality'' \<rparr>"

definition best_audio_row :: "nat \<Rightarrow> row" where
  \<comment> \<open>downloader.py line 116, app.py lines 129-137\<close>
  "best_audio_row best_audio_idx =
     \<lparr> col_id = best_audio_idx, col_format_id = CellVal (PStr ''bestaudio''),
       col_resolution = CellVal (PStr ''audio''), col_fps = CellVal (PStr ''auto''),
       col_size = CellVal (PStr ''auto''), col_type = CellVal (PStr ''mp3''),
       col_content = ''Best audio'' \<rparr>"

fun enumerate_from :: "nat \<Rightarrow> 'a list \<Rightarrow> (nat \<times> 'a) list" where
  \<comment> \<open>\<open>enumerate(xs)\<close> is \<open>enumerate_from 0 xs\<close>\<close>
  "enumerate_from i [] = []"
| "enumerate_from i (x # xs) = (i, x) # enumerate_from (Suc i) xs"

definition table_rows :: "format_info list \<Rightarrow> format_info list \<Rightarrow> nat \<Rightarrow> row list" where
  \<comment> \<open>The rows in the order both surfaces emit them: the video loop, the audio loop with
      \<open>idx = i + len(video_formats)\<close>, then the two rows numbered from \<open>len(formats)\<close>.\<close>
  "table_rows video_formats audio_formats n =
     map (\<lambda>(i, fmt). video_row i fmt) (enumerate_from 0 video_formats)
     @ map (\<lambda>(i, fmt). audio_row (i + length video_formats) fmt) (enumerate_from 0 audio_formats)
     @ [best_row n, best_audio_row (n + 1)]"

definition format_data :: "format_info list \<Rightarrow> row list" where
  \<comment> \<open>app.py lines 83-137.  Every cell goes through \<open>str()\<close> there, which never raises;
      the cell keeps the value that is rendered.\<close>
  "format_data formats =
     table_rows (app_video_formats formats) (app_audio_formats formats) (length formats)"

fun cell_printable :: "cell \<Rightarrow> bool" where
  \<comment> \<open>A cell printed with an alignment spec such as \<open>{x:<10}\<close>: \<open>None\<close> does not
      support it and raises TypeError.\<close>
  "cell_printable (CellVal PNone) = False"
| "cell_printable _ = True"

definition row_printable :: "row \<Rightarrow> bool" where
  "row_printable r =
     (cell_printable (col_format_id r) \<and> cell_printable (col_resolution r) \<and>
      cell_printable (col_fps r) \<and> cell_printable (col_size r) \<and> cell_printable (col_type r))"

fun print_rows :: "row list \<Rightarrow> row list \<times> py_error option" where
  \<comment> \<open>The successive \<open>print\<close> calls of lines 99-116: the rows that reached the terminal,
      and the exception that stopped the printing, if any.\<close>
  "print_rows [] = ([], None)"
| "print_rows (r # rs) =
     (if row_printable r
      then (case print_rows rs of (printed, err) \<Rightarrow> (r # printed, err))
      else ([], Some TypeError))"

section \<open>Strings: \<open>strip\<close>, \<open>int\<close>, \<open>lower\<close>, \<open>replace\<close>, \<open>in\<close>, \<open>str\<close>\<close>

text \<open>
  A \<open>char\<close> stands for a code point below 256; on these the definitions below follow
  CPython's tables.  \<open>str.strip\<close> removes the characters of \<open>str.isspace\<close>; \<open>int\<close>
  skips fewer: the C whitespace (tab to carriage return, and space) and the two
  whitespace characters above 127, which it first turns into spaces, but not the
  separators U+001C to U+001F.
\<close>

definition is_space :: "char \<Rightarrow> bool" where
  "is_space c = (let n = (of_char c :: nat)
                 in (9 \<le> n \<and> n \<le> 13) \<or> (28 \<le> n \<and> n \<le> 32) \<or> n = 133 \<or> n = 160)"

definition strip :: "string \<Rightarrow> string" where
  "strip s = rev (dropWhile is_space (rev (dropWhile is_space s)))"

definition int_space :: "char \<Rightarrow> bool" where
  "int_space c = (let n = (of_char c :: nat)
                  in (9 \<le> n \<and> n \<le> 13) \<or> n = 32 \<or> n = 133 \<or> n = 160)"

definition int_strip :: "string \<Rightarrow> string" where
  "int_strip s = rev (dropWhile int_space (rev (dropWhile int_space s)))"

definition digit_val :: "char \<Rightarrow> int option" where
  "digit_val c = (let n = (of_char c :: nat)
                  in if 48 \<le> n \<and> n \<le> 57 then Some (int n - 48) else None)"

fun digits_from :: "string \<Rightarrow> int \<Rightarrow> int option" where
  \<comment> \<open>The rest of a decimal literal after a digit: digits, each optionally preceded by
      one underscore.\<close>
  "digits_from [] acc = Some acc"
| "digits_from [c] acc =
     (case digit_val c of None \<Rightarrow> None | Some v \<Rightarrow> Some (acc * 10 + v))"
| "digits_from (c # d # ds) acc =
     (if c = CHR ''_''
      then (case digit_val d of None \<Rightarrow> None | Some v \<Rightarrow> digits_from ds (acc * 10 + v))
      else (case digit_val c of None \<Rightarrow> None | Some v \<Rightarrow> digits_from (d # ds) (acc * 10 + v)))"

definition unsigned_literal :: "string \<Rightarrow> int option" where
  \<comment> \<open>The last line is the limit of 4300 digits that CPython 3.11 and later put on the
      conversion (\<open>sys.get_int_max_str_digits()\<close>).\<close>
  "unsigned_literal s =
     (case s of [] \<Rightarrow> None
      | c # cs \<Rightarrow>
          (case digit_val c of
             None \<Rightarrow> None
           | Some v \<Rightarrow>
               if 4300 < length (filter (\<lambda>c. c \<noteq> CHR ''_'') s) then None
               else digits_from cs v))"

definition py_int :: "string \<Rightarrow> int option" where
  \<comment> \<open>\<open>int(s)\<close>; \<open>None\<close> is ValueError\<close>
  "py_int s =
     (case int_strip s of [] \<Rightarrow> None
      | c # cs \<Rightarrow>
          if c = CHR ''-'' then map_option uminus (unsigned_literal cs)
          else if c = CHR ''+'' then unsigned_literal cs
          else unsigned_literal (c # cs))"

definition lower_char :: "char \<Rightarrow> char" where
  "lower_char c = (let n = (of_char c :: nat)
                   in if (65 \<le> n \<and> n \<le> 90) \<or> (192 \<le> n \<and> n \<le> 222 \<and> n \<noteq> 215)
                      then char_of (n + 32) else c)"

definition lower :: "string \<Rightarrow> string" where
  "lower s = map lower_char s"

definition replace_char :: "char \<Rightarrow> char \<Rightarrow> string \<Rightarrow> string" where
  \<comment> \<open>\<open>s.replace(a, b)\<close> for one-character strings\<close>
  "replace_char a b s = map (\<lambda>c. if c = a then b else c) s"

fun contains :: "string \<Rightarrow> string \<Rightarrow> bool" where
  \<comment> \<open>\<open>sub in s\<close>\<close>
  "contains sub [] = (sub = [])"
| "contains sub (c # cs) = (take (length sub) (c # cs) = sub \<or> contains sub cs)"

fun str_nat :: "nat \<Rightarrow> string" where
  "str_nat n = (if n < 10 then [char_of (48 + n)]
                else str_nat (n div 10) @ [char_of (48 + n mod 10)])"

definition str_int :: "int \<Rightarrow> string" where
  "str_int i = (if i < 0 then CHR ''-'' # str_nat (nat (- i)) else str_nat (nat i))"

definition path_join :: "string \<Rightarrow> string \<Rightarrow> string" where
  \<comment> \<open>\<open>os.path.join(a, b)\<close> of posixpath\<close>
  "path_join a b =
     (if b \<noteq> [] \<and> hd b = CHR ''/'' then b
      else if a = [] \<or> last a = CHR ''/'' then a @ b
      else a @ ''/'' @ b)"

section \<open>Selection Resolver: \<open>display_formats_and_select\<close>\<close>

definition BEST :: string where
  "BEST = ''best[ext=mp4]''"

definition BEST_AUDIO :: string where
  "BEST_AUDIO = ''bestaudio[ext=mp3]/bestaudio''"

definition resolve_index :: "format_info list \<Rightarrow> int \<Rightarrow> py_error + pyval" where
  \<comment> \<open>Lines 126-141 with the lists of lines 89-96, for \<open>idx = int(selection)\<close>.  An
      IndexError would not be caught by line 143.\<close>
  "resolve_index formats idx =
     (case split_formats formats [] [] of
        (video_formats, audio_formats) \<Rightarrow>
          (let best_idx = int (length formats);
               best_audio_idx = best_idx + 1
           in if 0 \<le> idx \<and> idx < int (length video_formats)
              then map_sum id format_id (list_item video_formats idx)
              else if int (length video_formats) \<le> idx \<and> idx < int (length formats)
              then (let audio_idx = idx - int (length video_formats)
                    in map_sum id format_id (list_item audio_formats audio_idx))
              else if idx = best_idx then Inr (PStr BEST)
              else if idx = best_audio_idx then Inr (PStr BEST_AUDIO)
              else Inr (PStr BEST)))"

definition resolve_selection :: "format_info list \<Rightarrow> string \<Rightarrow> py_error + pyval" where
  \<comment> \<open>Lines 118-145; the string is what \<open>input\<close> returned.  \<open>int\<close> raising ValueError
      is caught at line 143.\<close>
  "resolve_selection formats selection =
     (if strip selection = [] then Inr (PStr BEST)
      else (case py_int selection of
              None \<Rightarrow> Inr (PStr BEST)
            | Some idx \<Rightarrow> resolve_index formats idx))"

definition display_formats_and_select ::
  "catalog option \<Rightarrow> string \<Rightarrow> row list \<times> (py_error + pyval)" where
  \<comment> \<open>The whole function: the rows printed, then the selection.  \<open>PNone\<close> is the
      \<open>return None\<close> of line 81.\<close>
  "display_formats_and_select formats_info selection =
     (case formats_info of
        None \<Rightarrow> ([], Inr PNone)
      | Some info \<Rightarrow>
          (let formats = cat_formats info in
           case split_formats formats [] [] of
             (video_formats, audio_formats) \<Rightarrow>
               (case print_rows (table_rows video_formats audio_formats (length formats)) of
                  (printed, Some e) \<Rightarrow> (printed, Inl e)
                | (printed, None) \<Rightarrow> (printed, resolve_selection formats selection))))"


section \<open>Command-line surface: \<open>download_with_yt_dlp\<close> and \<open>main\<close> (downloader.py)\<close>

record postprocessor =
  pp_key :: string
  preferredcodec :: string
  preferredquality :: string

record ydl_opts =
  opt_format :: pyval
  outtmpl :: string
  overwrites :: "bool option"
  skip_download :: "bool option"
  continuedl :: "bool option"
  outtmpl_na_placeholder :: "string option"
  concurrent_fragment_downloads :: "nat option"
  postprocessors :: "postprocessor list"
  noplaylist :: bool

text \<open>
  An absent key of the options dictionary is \<open>None\<close>; the keys that are the same in
  every call (\<open>format_sort\<close>, \<open>progress_hooks\<close>, \<open>quiet\<close>, \<open>no_warnings\<close>) are left
  out.  Paths are joined as on a POSIX system.  What one call of
  \<open>download_with_yt_dlp\<close> meets outside the program is collected in a record: what the
  collaborator answers, what the user types, and which paths exist.
\<close>

record cli_env =
  extract_formats :: "py_error + video_info"
    \<comment> \<open>\<open>extract_info\<close> inside \<open>get_available_formats\<close>\<close>
  selection_input :: string
    \<comment> \<open>the line typed at the format prompt\<close>
  extract_title :: "py_error + pyval option"
    \<comment> \<open>\<open>extract_info\<close> at line 167: raise, or the \<open>title\<close> entry of the result\<close>
  path_exists :: "string \<Rightarrow> bool"
    \<comment> \<open>\<open>os.path.exists\<close>\<close>
  now :: int
    \<comment> \<open>\<open>int(time.time())\<close>\<close>
  response_input :: string
    \<comment> \<open>the line typed at the collision prompt\<close>
  download_result :: "py_error option"
    \<comment> \<open>\<open>extract_info(url, download=True)\<close>: the exception it raises, if any\<close>
  exists_after_download :: "string \<Rightarrow> bool"
    \<comment> \<open>the paths that exist once the download call has returned; the function never
        looks\<close>

definition sanitized_title :: "pyval option \<Rightarrow> string option" where
  \<comment> \<open>\<open>info.get('title', 'video').replace('/', '_').replace('\\', '_')\<close>; \<open>None\<close> is the
      AttributeError of a title that is not a string\<close>
  "sanitized_title t =
     (case (case t of None \<Rightarrow> PStr ''video'' | Some v \<Rightarrow> v) of
        PStr s \<Rightarrow> Some (replace_char (CHR 0x5C) (CHR ''_'') (replace_char (CHR ''/'') (CHR ''_'') s))
      | _ \<Rightarrow> None)"

definition wants_mp3 :: "pyval \<Rightarrow> bool option" where
  \<comment> \<open>\<open>'bestaudio' in format_id and 'mp3' in format_id\<close>; \<open>None\<close> is the TypeError of
      \<open>in\<close> on a value that is not a string\<close>
  "wants_mp3 fid =
     (case fid of PStr s \<Rightarrow> Some (contains ''bestaudio'' s \<and> contains ''mp3'' s) | _ \<Rightarrow> None)"

record cli_result =
  returned :: bool
    \<comment> \<open>the value \<open>download_with_yt_dlp\<close> returns\<close>
  invoked :: "ydl_opts option"
    \<comment> \<open>the options of the download call, when the collaborator was asked to download\<close>
  prompted :: bool
    \<comment> \<open>whether the collision prompt of line 212 was shown\<close>
  success_reported :: bool
    \<comment> \<open>whether line 239 was printed\<close>

definition cli_fail :: cli_result where
  \<comment> \<open>an exception before the collision check, caught at line 242\<close>
  "cli_fail = \<lparr> returned = False, invoked = None, prompted = False, success_reported = False \<rparr>"

definition cli_download :: "cli_env \<Rightarrow> ydl_opts \<Rightarrow> bool \<Rightarrow> cli_result" where
  \<comment> \<open>lines 224-244\<close>
  "cli_download env opts asked =
     (case download_result env of
        Some e \<Rightarrow> \<lparr> returned = False, invoked = Some opts, prompted = asked,
                    success_reported = False \<rparr>
      | None \<Rightarrow> \<lparr> returned = True, invoked = Some opts, prompted = asked,
                  success_reported = True \<rparr>)"

definition cli_collision ::
  "cli_env \<Rightarrow> string \<Rightarrow> string \<Rightarrow> bool \<Rightarrow> ydl_opts \<Rightarrow> cli_result" where
  \<comment> \<open>lines 208-244\<close>
  "cli_collision env output_path video_title force opts =
     (let timestamp = now env;
          potential_filename = path_join output_path (video_title @ ''.mp4'')
      in if path_exists env potential_filename \<and> \<not> force
         then (let response = lower (response_input env)
               in if response = ''y''
                  then cli_download env (opts\<lparr> overwrites := Some True \<rparr>) True
                  else if response = ''r''
                  then cli_download env
                         (opts\<lparr> outtmpl := path_join output_path
                                   (''%(title)s_'' @ str_int timestamp @ ''.%(ext)s'') \<rparr>) True
                  else \<lparr> returned = True, invoked = None, prompted = True,
                         success_reported = False \<rparr>)
         else cli_download env opts False)"

definition cli_options :: "string \<Rightarrow> pyval \<Rightarrow> bool \<Rightarrow> ydl_opts option" where
  \<comment> \<open>lines 172-201; \<open>None\<close> is the TypeError of line 196\<close>
  "cli_options output_path fid force =
     (let filename_template = ''%(title)s.%(ext)s'';
          opts0 = \<lparr> opt_format = fid, outtmpl = path_join output_path filename_template,
                    overwrites = None, skip_download = None, continuedl = None,
                    outtmpl_na_placeholder = None, concurrent_fragment_downloads = None, postprocessors = [],
                    noplaylist = True \<rparr>;
          opts1 = (if force then opts0\<lparr> overwrites := Some True \<rparr>
                   else opts0\<lparr> skip_download := Some False, continuedl := Some True,
                               outtmpl_na_placeholder := Some [],
                               concurrent_fragment_downloads := Some 5 \<rparr>)
      in if truthy fid
         then (case wants_mp3 fid of
                 None \<Rightarrow> None
               | Some True \<Rightarrow> Some (opts1\<lparr> postprocessors :=
                     [\<lparr> pp_key = ''FFmpegExtractAudio'', preferredcodec = ''mp3'',
                        preferredquality = ''192'' \<rparr>] \<rparr>)
               | Some False \<Rightarrow> Some opts1)
         else Some opts1)"

definition choose_format :: "cli_env \<Rightarrow> pyval \<Rightarrow> bool \<Rightarrow> pyval option" where
  \<comment> \<open>lines 150-161; \<open>None\<close> is \<open>return False\<close>, at line 158 or through line 242\<close>
  "choose_format env fid auto_best =
     (if auto_best then Some (PStr BEST)
      else if \<not> truthy fid
      then (case get_available_formats (extract_formats env) of
              None \<Rightarrow> None
            | Some formats_info \<Rightarrow>
                (case snd (display_formats_and_select (Some formats_info) (selection_input env)) of
                   Inl e \<Rightarrow> None
                 | Inr chosen \<Rightarrow> Some chosen))
      else Some fid)"

definition download_with_yt_dlp ::
  "cli_env \<Rightarrow> string \<Rightarrow> pyval \<Rightarrow> bool \<Rightarrow> bool \<Rightarrow> cli_result" where
  \<comment> \<open>\<open>download_with_yt_dlp(url, output_path, format_id, auto_best, force)\<close>; the url is
      what selects the environment\<close>
  "download_with_yt_dlp env output_path fid auto_best force =
     (case choose_format env fid auto_best of
        None \<Rightarrow> cli_fail
      | Some fid' \<Rightarrow>
          (case extract_title env of
             Inl e \<Rightarrow> cli_fail
           | Inr t \<Rightarrow>
               (case sanitized_title t of
                  None \<Rightarrow> cli_fail
                | Some video_title \<Rightarrow>
                    (case cli_options output_path fid' force of
                       None \<Rightarrow> cli_fail
                     | Some opts \<Rightarrow> cli_collision env output_path video_title force opts))))"

fun process_urls :: "cli_env list \<Rightarrow> string \<Rightarrow> pyval \<Rightarrow> bool \<Rightarrow> bool \<Rightarrow> nat \<Rightarrow> nat" where
  \<comment> \<open>The loop of lines 284-288 of \<open>main\<close>, one environment per url; the last argument
      is \<open>success_count\<close>.\<close>
  "process_urls [] output_dir fid best force success_count = success_count"
| "process_urls (env # envs) output_dir fid best force success_count =
     (if returned (download_with_yt_dlp env output_dir fid best force)
      then process_urls envs output_dir fid best force (success_count + 1)
      else process_urls envs output_dir fid best force success_count)"

datatype cli_line = Downloading pyval pyval pyval | Processing

definition yt_dlp_progress_hook :: "pydict \<Rightarrow> py_error + cli_line option" where
  \<comment> \<open>lines 246-255: the line written, if any.  The three values are interpolated
      without a format spec, which no value rejects.\<close>
  "yt_dlp_progress_hook d =
     (case d ''status'' of
        None \<Rightarrow> Inl KeyError
      | Some status \<Rightarrow>
          if status = PStr ''downloading''
          then Inr (Some (Downloading (dict_get d ''_percent_str'' (PStr ''N/A''))
                                      (dict_get d ''_speed_str'' (PStr ''N/A''))
                                      (dict_get d ''_eta_str'' (PStr ''N/A''))))
          else if status = PStr ''finished'' then Inr (Some Processing)
          else Inr None)"


section \<open>Progress Reporter of the browser surface: \<open>streamlit_progress_hook\<close> (app.py)\<close>

datatype speed_str = SpeedNA | SpeedMBs rat
  \<comment> \<open>\<open>"N/A"\<close>, or the megabytes per second that \<open>f"{speed / (1024 * 1024):.2f} MB/s"\<close> prints\<close>

datatype eta_str = EtaNA | EtaMinSec int rat
  \<comment> \<open>\<open>"N/A"\<close>, or \<open>eta // 60\<close> and \<open>eta % 60\<close>\<close>

datatype status_line = DownloadingAt speed_str | NowProcessing

datatype size_text = SizeOfTotal rat rat rat | SizeUnknownTotal rat | EstimatedSize rat
  \<comment> \<open>line 308: megabytes downloaded, total megabytes, percentage; line 310: megabytes
      downloaded, "unknown total"; line 338: estimated megabytes\<close>

record widgets =
  progress_bar :: rat
  percent_text :: "rat option"
  status_text :: "status_line option"
  file_size_text :: "size_text option"
  eta_text :: "eta_str option"

text \<open>
  A text widget holds the last value written to it (\<open>None\<close>: empty); \<open>percent_text\<close>
  holds the fraction that \<open>{percentage:.1%}\<close> renders, and 1 for the literal \<open>100%\<close> of
  line 315.  \<open>progress_bar\<close> holds the value passed by the last call of
  \<open>progress_bar.progress\<close>, whether Streamlit accepted it or raised.

  Numbers are exact: a quotient is the rational quotient, where the program gets the
  nearest double.  The model does not tell an int from a float, so of the exceptions of
  Python's division it has ZeroDivisionError, TypeError and, for the divisions by
  \<open>1024 * 1024\<close>, OverflowError; it does not have the OverflowError of
  \<open>downloaded_bytes / total_bytes\<close> when both are ints and the quotient is beyond the
  range of a float.
\<close>

definition progress_accepts :: "rat \<Rightarrow> bool" where
  \<comment> \<open>Streamlit's check of a float passed to \<open>progress\<close> (streamlit/elements/progress.py,
      not part of the repository): between 0.0 and 1.0, or within \<open>1e-9\<close> of a bound;
      otherwise it raises StreamlitAPIException.\<close>
  "progress_accepts v = (- (1 / 10 ^ 9) \<le> v \<and> v \<le> 1 + 1 / 10 ^ 9)"

definition widgets_init :: widgets where
  \<comment> \<open>lines 270-280\<close>
  "widgets_init = \<lparr> progress_bar = 0, percent_text = None, status_text = None,
                     file_size_text = None, eta_text = None \<rparr>"

definition py_gt0 :: "pyval \<Rightarrow> py_error + bool" where
  \<comment> \<open>\<open>v > 0\<close>\<close>
  "py_gt0 v = (case v of PNum n \<Rightarrow> Inr (n > 0) | _ \<Rightarrow> Inl TypeError)"

definition py_div :: "pyval \<Rightarrow> pyval \<Rightarrow> py_error + rat" where
  \<comment> \<open>\<open>a / b\<close>\<close>
  "py_div a b =
     (case (a, b) of
        (PNum x, PNum y) \<Rightarrow> if y = 0 then Inl ZeroDivisionError else Inr (x / y)
      | _ \<Rightarrow> Inl TypeError)"

definition hook_total_bytes :: "pydict \<Rightarrow> pyval" where
  \<comment> \<open>line 287: \<open>d.get('total_bytes') or d.get('total_bytes_estimate', 0)\<close>\<close>
  "hook_total_bytes d =
     (let tb = dict_get d ''total_bytes'' PNone
      in if truthy tb then tb else dict_get d ''total_bytes_estimate'' (PNum 0))"

definition hook_speed_str :: "pyval \<Rightarrow> py_error + speed_str" where
  \<comment> \<open>line 302\<close>
  "hook_speed_str speed =
     (if truthy speed then map_sum id SpeedMBs (div_MB speed) else Inr SpeedNA)"

definition hook_eta_str :: "pyval \<Rightarrow> py_error + eta_str" where
  \<comment> \<open>line 304\<close>
  "hook_eta_str eta =
     (if truthy eta
      then (case eta of
              PNum e \<Rightarrow> Inr (EtaMinSec (\<lfloor>e / 60\<rfloor>) (e - 60 * of_int \<lfloor>e / 60\<rfloor>))
            | _ \<Rightarrow> Inl TypeError)
      else Inr EtaNA)"

definition hook_percentage ::
  "widgets \<Rightarrow> pyval \<Rightarrow> pyval \<Rightarrow> widgets \<times> (py_error + rat option)" where
  \<comment> \<open>Lines 289-294: the widgets afterwards, and the exception raised or the local
      \<open>percentage\<close>, \<open>None\<close> while it is unbound.\<close>
  "hook_percentage w downloaded_bytes total_bytes =
     (case py_gt0 total_bytes of
        Inl e \<Rightarrow> (w, Inl e)
      | Inr False \<Rightarrow> (w, Inr None)
      | Inr True \<Rightarrow>
          (case py_div downloaded_bytes total_bytes of
             Inl e \<Rightarrow> (w, Inl e)
           | Inr percentage \<Rightarrow>
               (let w1 = w\<lparr> progress_bar := min percentage 1 \<rparr>
                in if progress_accepts (min percentage 1)
                   then (w1\<lparr> percent_text := Some percentage \<rparr>, Inr (Some percentage))
                   else (w1, Inl StreamlitAPIException))))"

definition hook_texts ::
  "widgets \<Rightarrow> pydict \<Rightarrow> pyval \<Rightarrow> pyval \<Rightarrow> rat option \<Rightarrow> widgets \<times> py_error option" where
  \<comment> \<open>lines 296-311\<close>
  "hook_texts w d downloaded_bytes total_bytes percentage =
     (case div_MB downloaded_bytes of
        Inl e \<Rightarrow> (w, Some e)
      | Inr downloaded_mb \<Rightarrow>
     (case (if truthy total_bytes then div_MB total_bytes else Inr 0) of
        Inl e \<Rightarrow> (w, Some e)
      | Inr total_mb \<Rightarrow>
     (case hook_speed_str (dict_get d ''speed'' (PNum 0)) of
        Inl e \<Rightarrow> (w, Some e)
      | Inr speed_str \<Rightarrow>
     (case hook_eta_str (dict_get d ''eta'' (PNum 0)) of
        Inl e \<Rightarrow> (w, Some e)
      | Inr eta_str \<Rightarrow>
          (let w1 = w\<lparr> status_text := Some (DownloadingAt speed_str) \<rparr>
           in if truthy total_bytes
              then (case percentage of
                      None \<Rightarrow> (w1, Some UnboundLocalError)
                    | Some p \<Rightarrow>
                        (w1\<lparr> file_size_text := Some (SizeOfTotal downloaded_mb total_mb p),
                             eta_text := Some eta_str \<rparr>, None))
              else (w1\<lparr> file_size_text := Some (SizeUnknownTotal downloaded_mb),
                        eta_text := Some eta_str \<rparr>, None))))))"

definition streamlit_progress_hook :: "widgets \<Rightarrow> pydict \<Rightarrow> widgets \<times> py_error option" where
  \<comment> \<open>lines 283-318: the widgets after the call, and the exception it raised, if any\<close>
  "streamlit_progress_hook w d =
     (case d ''status'' of
        None \<Rightarrow> (w, Some KeyError)
      | Some status \<Rightarrow>
          if status = PStr ''downloading''
          then (let downloaded_bytes = dict_get d ''downloaded_bytes'' (PNum 0);
                    total_bytes = hook_total_bytes d
                in case hook_percentage w downloaded_bytes total_bytes of
                     (w1, Inl e) \<Rightarrow> (w1, Some e)
                   | (w1, Inr percentage) \<Rightarrow>
                       hook_texts w1 d downloaded_bytes total_bytes percentage)
          else if status = PStr ''finished''
          then (w\<lparr> progress_bar := 1, percent_text := Some 1,
                    status_text := Some NowProcessing,
                    file_size_text := None, eta_text := None \<rparr>, None)
          else (w, None))"

fun run_hook :: "widgets \<Rightarrow> pydict list \<Rightarrow> widgets \<times> py_error option" where
  \<comment> \<open>The collaborator pushes the events of one transfer in order; an exception of the
      hook ends the transfer.\<close>
  "run_hook w [] = (w, None)"
| "run_hook w (d # ds) =
     (case streamlit_progress_hook w d of
        (w', Some e) \<Rightarrow> (w', Some e)
      | (w', None) \<Rightarrow> run_hook w' ds)"


section \<open>Browser surface: session state and \<open>download_with_streamlit\<close> (app.py)\<close>

record session_state =
  file_decision_made :: bool
  file_decision :: "string option"
  new_filename :: "string option"

definition session_init :: session_state where
  \<comment> \<open>lines 14-20\<close>
  "session_init = \<lparr> file_decision_made = False, file_decision = None, new_filename = None \<rparr>"

definition on_redownload :: "session_state \<Rightarrow> session_state" where
  \<comment> \<open>lines 205-207\<close>
  "on_redownload s = s\<lparr> file_decision_made := True, file_decision := Some ''redownload'' \<rparr>"

definition on_new_name :: "string \<Rightarrow> int \<Rightarrow> session_state \<Rightarrow> session_state" where
  \<comment> \<open>lines 209-212: the title is the one the closure captured, the integer is
      \<open>int(time.time())\<close> at the click\<close>
  "on_new_name video_title t s =
     s\<lparr> file_decision_made := True, file_decision := Some ''new_name'',
        new_filename := Some (video_title @ ''_'' @ str_int t) \<rparr>"

definition on_skip :: "session_state \<Rightarrow> session_state" where
  \<comment> \<open>lines 214-216\<close>
  "on_skip s = s\<lparr> file_decision_made := True, file_decision := Some ''skip'' \<rparr>"

definition reset_decision :: "session_state \<Rightarrow> session_state" where
  \<comment> \<open>lines 240-242 and 246-248\<close>
  "reset_decision s = s\<lparr> file_decision_made := False, file_decision := None,
                          new_filename := None \<rparr>"

datatype ui_msg =
    WarningFileExists
  | InfoRedownloading
  | InfoNewName string
  | InfoSkipped
  | SuccessSaved string string rat
  | WarningNotFound string
  | ErrorShown py_error

record app_env =
  app_title :: "py_error + pyval option"
    \<comment> \<open>\<open>extract_info\<close> at line 189: raise, or the \<open>title\<close> entry of the result\<close>
  files_at_check :: "string \<Rightarrow> nat option"
    \<comment> \<open>the files, with their sizes in bytes, when line 195 runs\<close>
  estimate_formats :: "py_error + pydict list"
    \<comment> \<open>\<open>extract_info\<close> at line 327: raise, or the \<open>formats\<close> of the result\<close>
  progress_events :: "pydict list"
    \<comment> \<open>the events the collaborator pushes during \<open>ydl.download\<close>\<close>
  app_download_result :: "py_error option"
    \<comment> \<open>the exception \<open>ydl.download\<close> raises on its own account, if any\<close>
  files_after_download :: "string \<Rightarrow> nat option"
    \<comment> \<open>the files when line 357 runs\<close>

record app_result =
  state_after :: session_state
  messages :: "ui_msg list"
  app_invoked :: "ydl_opts option"
    \<comment> \<open>the options of \<open>ydl.download\<close>, when it was called\<close>
  stopped :: "string option"
    \<comment> \<open>\<open>st.stop()\<close> at line 227 was reached, the three buttons on screen; the string
        is the \<open>video_title\<close> their callbacks have captured\<close>
  shown_progress :: "widgets option"

definition fstr :: "string option \<Rightarrow> string" where
  \<comment> \<open>a value that is a string or \<open>None\<close>, interpolated in an f-string\<close>
  "fstr v = (case v of None \<Rightarrow> ''None'' | Some s \<Rightarrow> s)"

definition app_error :: "session_state \<Rightarrow> ui_msg list \<Rightarrow> py_error \<Rightarrow> app_result" where
  \<comment> \<open>lines 369-371, for an exception before \<open>ydl.download\<close>\<close>
  "app_error s msgs e =
     \<lparr> state_after = s, messages = msgs @ [ErrorShown e], app_invoked = None,
       stopped = None, shown_progress = None \<rparr>"

definition expected_file :: "string \<Rightarrow> string \<Rightarrow> bool \<Rightarrow> string \<times> string" where
  \<comment> \<open>lines 348-354: \<open>file_path\<close> and \<open>file_type\<close>; the flag is the condition of
      line 349\<close>
  "expected_file output_path video_title mp3 =
     (if mp3 then (path_join output_path (video_title @ ''.mp3''), ''Audio'')
      else (path_join output_path (video_title @ ''.mp4''), ''Video''))"

definition estimated_size :: "app_env \<Rightarrow> pyval \<Rightarrow> rat option" where
  \<comment> \<open>Lines 323-341: the megabytes written to \<open>file_size_text\<close> before the download, if
      any; every exception is swallowed at line 339.  The format is a string here, so a
      descriptor that matches it holds \<open>format_id\<close> and is not an empty dictionary.\<close>
  "estimated_size env fid =
     (case estimate_formats env of
        Inl e \<Rightarrow> None
      | Inr formats \<Rightarrow>
          (case find (\<lambda>fmt. dict_get fmt ''format_id'' PNone = fid) formats of
             None \<Rightarrow> None
           | Some selected_format \<Rightarrow>
               (let filesize = dict_get selected_format ''filesize'' PNone
                in if truthy filesize
                   then (case div_MB filesize of Inl e \<Rightarrow> None | Inr filesize_mb \<Rightarrow> Some filesize_mb)
                   else None)))"

definition app_transfer ::
  "app_env \<Rightarrow> string \<Rightarrow> string \<Rightarrow> pyval \<Rightarrow> bool \<Rightarrow> nat \<Rightarrow> string
     \<Rightarrow> session_state \<Rightarrow> ui_msg list \<Rightarrow> app_result" where
  \<comment> \<open>Lines 250-367.  The audio player of lines 361-365 is left out.\<close>
  "app_transfer env output_path video_title fid force concurrent_fragments audio_quality s msgs =
     (case wants_mp3 fid of
        None \<Rightarrow> app_error s msgs TypeError
      | Some mp3 \<Rightarrow>
          (let opts = \<lparr> opt_format = fid,
                        outtmpl = path_join output_path (video_title @ ''.%(ext)s''),
                        overwrites = Some force, skip_download = None, continuedl = None,
                        outtmpl_na_placeholder = None,
                        concurrent_fragment_downloads = Some concurrent_fragments,
                        postprocessors =
                          (if mp3 then [\<lparr> pp_key = ''FFmpegExtractAudio'',
                                           preferredcodec = ''mp3'',
                                           preferredquality = audio_quality \<rparr>] else []),
                        noplaylist = True \<rparr>;
               failed = (\<lambda>w e. \<lparr> state_after = s, messages = msgs @ [ErrorShown e],
                                  app_invoked = Some opts, stopped = None,
                                  shown_progress = Some w \<rparr>);
               w0 = widgets_init\<lparr> file_size_text :=
                                     map_option EstimatedSize (estimated_size env fid) \<rparr>
           in case run_hook w0 (progress_events env) of
                (w, Some e) \<Rightarrow> failed w e
              | (w, None) \<Rightarrow>
                  (case app_download_result env of
                     Some e \<Rightarrow> failed w e
                   | None \<Rightarrow>
                       (let file_path = fst (expected_file output_path video_title mp3);
                            file_type = snd (expected_file output_path video_title mp3)
                        in case files_after_download env file_path of
                             Some nbytes \<Rightarrow>
                               (case div_MB (PNum (of_nat nbytes)) of
                                  Inl e \<Rightarrow> failed w e
                                | Inr file_size_mb \<Rightarrow>
                                    \<lparr> state_after = s,
                                      messages = msgs @
                                        [SuccessSaved file_type file_path file_size_mb],
                                      app_invoked = Some opts, stopped = None,
                                      shown_progress = Some w \<rparr>)
                           | None \<Rightarrow>
                               \<lparr> state_after = s,
                                 messages = msgs @ [WarningNotFound file_path],
                                 app_invoked = Some opts, stopped = None,
                                 shown_progress = Some w \<rparr>))))"

definition app_exists :: "app_env \<Rightarrow> string \<Rightarrow> bool" where
  \<comment> \<open>\<open>os.path.exists\<close> at line 195\<close>
  "app_exists env path = (files_at_check env path \<noteq> None)"

definition download_with_streamlit ::
  "app_env \<Rightarrow> string \<Rightarrow> pyval \<Rightarrow> bool \<Rightarrow> nat \<Rightarrow> string \<Rightarrow> session_state \<Rightarrow> app_result" where
  \<comment> \<open>\<open>download_with_streamlit(url, output_path, format_id, force, concurrent_fragments,
      audio_quality)\<close> run on a session state; the url is what selects the environment\<close>
  "download_with_streamlit env output_path fid force concurrent_fragments audio_quality s =
     (case app_title env of
        Inl e \<Rightarrow> app_error s [] e
      | Inr t \<Rightarrow>
     (case sanitized_title t of
        None \<Rightarrow> app_error s [] AttributeError
      | Some video_title \<Rightarrow>
          (let potential_filename = path_join output_path (video_title @ ''.mp4'');
               potential_filename_audio = path_join output_path (video_title @ ''.mp3'');
               file_exists = (app_exists env potential_filename \<or>
                              app_exists env potential_filename_audio)
           in if file_exists \<and> \<not> force \<and> \<not> file_decision_made s
              then \<lparr> state_after = s, messages = [WarningFileExists], app_invoked = None,
                     stopped = Some video_title, shown_progress = None \<rparr>
              else if file_decision_made s
              then (if file_decision s = Some ''redownload''
                    then app_transfer env output_path video_title fid True
                           concurrent_fragments audio_quality (reset_decision s)
                           [InfoRedownloading]
                    else if file_decision s = Some ''new_name''
                    then app_transfer env output_path (fstr (new_filename s)) fid force
                           concurrent_fragments audio_quality (reset_decision s)
                           [InfoNewName (fstr (new_filename s))]
                    else if file_decision s = Some ''skip''
                    then \<lparr> state_after = reset_decision s, messages = [InfoSkipped],
                           app_invoked = None, stopped = None, shown_progress = None \<rparr>
                    else app_transfer env output_path video_title fid force
                           concurrent_fragments audio_quality (reset_decision s) [])
              else app_transfer env output_path video_title fid force
                     concurrent_fragments audio_quality s [])))"

inductive reachable :: "session_state \<Rightarrow> bool" where
  \<comment> \<open>The session states the program can be in: the initial one, the one a call of
      \<open>download_with_streamlit\<close> leaves, and the one a button callback leaves; the
      three buttons exist only in a run that reached \<open>st.stop()\<close>.\<close>
  start: "reachable session_init"
| call: "reachable s \<Longrightarrow>
         reachable (state_after (download_with_streamlit env output_path fid force cf aq s))"
| click_redownload:
    "reachable s \<Longrightarrow>
     stopped (download_with_streamlit env output_path fid force cf aq s) = Some video_title \<Longrightarrow>
     reachable (on_redownload s)"
| click_new_name:
    "reachable s \<Longrightarrow>
     stopped (download_with_streamlit env output_path fid force cf aq s) = Some video_title \<Longrightarrow>
     reachable (on_new_name video_title t s)"
| click_skip:
    "reachable s \<Longrightarrow>
     stopped (download_with_streamlit env output_path fid force cf aq s) = Some video_title \<Longrightarrow>
     reachable (on_skip s)"

section \<open>Predicates used in the statements\<close>

definition all_raw :: "video_info \<Rightarrow> pydict list" where
  \<comment> \<open>the raw descriptors of an answer: \<open>info.get('formats', [])\<close>\<close>
  "all_raw info = (case info_formats info of None \<Rightarrow> [] | Some fs \<Rightarrow> fs)"

definition video_capable_row :: "row \<Rightarrow> bool" where
  \<comment> \<open>a table row of a video-capable entry, told by its last column\<close>
  "video_capable_row r = (col_content r = ''Video'' \<or> col_content r = ''Video+Audio'')"

definition audio_only_row :: "row \<Rightarrow> bool" where
  \<comment> \<open>a table row of an audio-only entry\<close>
  "audio_only_row r = (col_content r = ''Audio only'')"

definition is_str :: "pyval \<Rightarrow> bool" where
  "is_str v = (case v of PStr s \<Rightarrow> True | _ \<Rightarrow> False)"

definition byte_count :: "pyval \<Rightarrow> bool" where
  \<comment> \<open>a number of bytes: not negative, and below \<open>2 ^ 64\<close>\<close>
  "byte_count v = (case v of PNum n \<Rightarrow> 0 \<le> n \<and> n < 2 ^ 64 | _ \<Rightarrow> False)"

definition rate_ok :: "pyval \<Rightarrow> bool" where
  \<comment> \<open>\<open>None\<close>, or a number of bytes per second below \<open>2 ^ 64\<close> in magnitude\<close>
  "rate_ok v = (case v of PNum x \<Rightarrow> \<bar>x\<bar> < 2 ^ 64 | PNone \<Rightarrow> True | PStr s \<Rightarrow> False)"

definition downloading_ok :: "pydict \<Rightarrow> bool" where
  \<comment> \<open>A \<open>downloading\<close> event whose optional fields are missing or numbers:
      \<open>downloaded_bytes\<close> absent or a byte count; the total of line 287 a byte count (0
      when both keys are absent); \<open>speed\<close> absent, \<open>None\<close> or a number; \<open>eta\<close> absent,
      \<open>None\<close> or a number.\<close>
  "downloading_ok d =
     (d ''status'' = Some (PStr ''downloading'') \<and>
      byte_count (dict_get d ''downloaded_bytes'' (PNum 0)) \<and>
      byte_count (hook_total_bytes d) \<and>
      rate_ok (dict_get d ''speed'' (PNum 0)) \<and>
      \<not> is_str (dict_get d ''eta'' (PNum 0)))"

section \<open>Inputs at which the definitions are evaluated\<close>

definition m4a_audio :: pydict where
  "m4a_audio = map_of [(''format_id'', PStr ''140''), (''ext'', PStr ''m4a''),
                       (''vcodec'', PStr ''none''), (''acodec'', PStr ''mp4a.40.2'')]"

definition mp4_video :: pydict where
  "mp4_video = map_of [(''format_id'', PStr ''18''), (''ext'', PStr ''mp4''),
                       (''resolution'', PStr ''640x360''), (''fps'', PNum 30),
                       (''filesize'', PNum 10485760),
                       (''vcodec'', PStr ''avc1.42001E''), (''acodec'', PStr ''mp4a.40.2'')]"

definition mp3_audio :: pydict where
  "mp3_audio = map_of [(''format_id'', PStr ''mp3-128''), (''ext'', PStr ''mp3''),
                       (''vcodec'', PStr ''none''), (''acodec'', PStr ''mp3'')]"

definition storyboard :: pydict where
  "storyboard = map_of [(''format_id'', PStr ''sb0''), (''ext'', PStr ''mhtml''),
                        (''vcodec'', PStr ''none''), (''acodec'', PStr ''none'')]"

definition example_info :: video_info where
  "example_info = \<lparr> info_title = Some (PStr ''Title''), info_duration = Some (PNum 212),
                      strftime_error = None,
                      info_formats = Some [storyboard, mp3_audio, m4a_audio, mp4_video] \<rparr>"

definition m4a_info :: video_info where
  "m4a_info = \<lparr> info_title = None, info_duration = None, strftime_error = None,
                  info_formats = Some [m4a_audio] \<rparr>"

definition example_formats :: "format_info list" where
  "example_formats =
     [\<lparr> format_id = PStr ''mp3-128'', ext = PStr ''mp3'', resolution = PStr ''N/A'',
        fps = PStr ''N/A'', filesize = SizeUnknown, has_video = False, has_audio = True \<rparr>,
      \<lparr> format_id = PStr ''18'', ext = PStr ''mp4'', resolution = PStr ''640x360'',
        fps = PNum 30, filesize = SizeMB 10, has_video = True, has_audio = True \<rparr>]"

definition cli_env_example :: "(string \<Rightarrow> bool) \<Rightarrow> string \<Rightarrow> cli_env" where
  "cli_env_example existing response =
     \<lparr> extract_formats = Inr example_info, selection_input = [],
       extract_title = Inr (Some (PStr ''Title'')), path_exists = existing,
       now = 1700000000, response_input = response, download_result = None,
       exists_after_download = existing \<rparr>"

definition app_env_example :: "(string \<Rightarrow> nat option) \<Rightarrow> (string \<Rightarrow> nat option) \<Rightarrow> app_env" where
  "app_env_example before after =
     \<lparr> app_title = Inr (Some (PStr ''Title'')), files_at_check = before,
       estimate_formats = Inr [], progress_events = [], app_download_result = None,
       files_after_download = after \<rparr>"

definition only_mp3 :: "string \<Rightarrow> nat option" where
  "only_mp3 = map_of [(''/dl/Title.mp3'', 1048576)]"

definition only_mp4 :: "string \<Rightarrow> nat option" where
  "only_mp4 = map_of [(''/dl/Title.mp4'', 2097152)]"

definition other_target :: app_env where
  "other_target =
     \<lparr> app_title = Inr (Some (PStr ''Other'')), files_at_check = only_mp4,
       estimate_formats = Inr [], progress_events = [], app_download_result = None,
       files_after_download = map_of [(''/dl/Title.mp4'', 2097152),
                                      (''/dl/Other.mp4'', 1048576)] \<rparr>"

definition no_fps_video :: pydict where
  "no_fps_video = map_of [(''format_id'', PStr ''22''), (''ext'', PStr ''mp4''),
                          (''resolution'', PStr ''1280x720''), (''fps'', PNone),
                          (''vcodec'', PStr ''avc1.64001F''), (''acodec'', PStr ''mp4a.40.2'')]"

definition no_fps_info :: video_info where
  "no_fps_info = \<lparr> info_title = Some (PStr ''Title''), info_duration = None,
                     strftime_error = None, info_formats = Some [no_fps_video] \<rparr>"

definition no_fps_formats :: "format_info list" where
  "no_fps_formats =
     [\<lparr> format_id = PStr ''22'', ext = PStr ''mp4'', resolution = PStr ''1280x720'',
        fps = PNone, filesize = SizeUnknown, has_video = True, has_audio = True \<rparr>]"

definition no_fps_cli_env :: cli_env where
  "no_fps_cli_env =
     \<lparr> extract_formats = Inr no_fps_info, selection_input = [],
       extract_title = Inr (Some (PStr ''Title'')), path_exists = (\<lambda>p. False),
       now = 1700000000, response_input = [], download_result = None,
       exists_after_download = (\<lambda>p. False) \<rparr>"

definition forced_opts :: ydl_opts where
  "forced_opts = \<lparr> opt_format = PStr BEST, outtmpl = ''/dl/%(title)s.%(ext)s'',
                    overwrites = Some True, skip_download = None, continuedl = None,
                    outtmpl_na_placeholder = None, concurrent_fragment_downloads = None,
                    postprocessors = [], noplaylist = True \<rparr>"

definition browser_opts :: ydl_opts where
  "browser_opts = \<lparr> opt_format = PStr BEST, outtmpl = ''/dl/Title.%(ext)s'',
                     overwrites = Some False, skip_download = None, continuedl = None,
                     outtmpl_na_placeholder = None, concurrent_fragment_downloads = Some 5,
                     postprocessors = [], noplaylist = True \<rparr>"

definition bare_event :: pydict where
  "bare_event = map_of [(''status'', PStr ''downloading'')]"

definition half_event :: pydict where
  "half_event = map_of [(''status'', PStr ''downloading''), (''downloaded_bytes'', PNum 5242880),
                        (''total_bytes'', PNum 10485760), (''speed'', PNone), (''eta'', PNum 75)]"

definition over_event :: pydict where
  "over_event = map_of [(''status'', PStr ''downloading''), (''downloaded_bytes'', PNum 300),
                        (''total_bytes'', PNone), (''total_bytes_estimate'', PNum 200)]"

definition negative_total_event :: pydict where
  "negative_total_event = map_of [(''status'', PStr ''downloading''),
                                  (''downloaded_bytes'', PNum 10), (''total_bytes'', PNum (- 1))]"

definition negative_bytes_event :: pydict where
  "negative_bytes_event = map_of [(''status'', PStr ''downloading''),
                                  (''downloaded_bytes'', PNum (- 5)), (''total_bytes'', PNum 10)]"

definition null_estimate_event :: pydict where
  "null_estimate_event = map_of [(''status'', PStr ''downloading''),
                                 (''downloaded_bytes'', PNum 10),
                                 (''total_bytes_estimate'', PNone)]"

section \<open>Verified properties\<close>

subsection \<open>Format Catalog Builder\<close>

lemma FLOAT_LIMIT_big: "2 ^ 64 \<le> FLOAT_LIMIT"
  by (simp add: FLOAT_LIMIT_def)

lemma div_MB_small: "\<bar>x\<bar> < 2 ^ 64 \<Longrightarrow> div_MB (PNum x) = Inr (x / (1024 * 1024))"
proof -
  assume a: "\<bar>x\<bar> < 2 ^ 64"
  have "\<bar>x / (1024 * 1024)\<bar> \<le> \<bar>x\<bar>" by (simp add: abs_divide field_simps)
  with a FLOAT_LIMIT_big have "\<not> FLOAT_LIMIT \<le> \<bar>x / (1024 * 1024)\<bar>" by linarith
  then show ?thesis by (simp add: div_MB_def)
qed

lemma format_entry_Some: "format_entry f = Inr (Some fi) \<Longrightarrow> kept f"
  by (auto simp: format_entry_def kept_def raw_has_video_def raw_has_audio_def raw_is_mp3_def Let_def
      split: sum.splits if_splits)

lemma format_entry_None: "format_entry f = Inr None \<Longrightarrow> \<not> kept f"
  by (auto simp: format_entry_def kept_def raw_has_video_def raw_has_audio_def raw_is_mp3_def Let_def
      split: sum.splits if_splits)

lemma format_entry_tracks:
  "format_entry f = Inr (Some fi) \<Longrightarrow>
     has_video fi = raw_has_video f \<and> has_audio fi = raw_has_audio f \<and>
     ext fi = dict_get f ''ext'' (PStr ''N/A'')"
  by (auto simp: format_entry_def raw_has_video_def raw_has_audio_def Let_def
      split: sum.splits if_splits)

lemma collect_formats_acc:
  "collect_formats raw acc = Inr formats \<Longrightarrow>
     \<exists>new. formats = acc @ new \<and>
           list_all2 (\<lambda>f fi. format_entry f = Inr (Some fi)) (filter kept raw) new"
proof (induction raw arbitrary: acc)
  case Nil
  then show ?case by simp
next
  case (Cons f fs)
  show ?case
  proof (cases "format_entry f")
    case (Inl e)
    with Cons.prems show ?thesis by simp
  next
    case (Inr r)
    show ?thesis
    proof (cases r)
      case None
      with Inr Cons.prems have "collect_formats fs acc = Inr formats" by simp
      from Cons.IH [OF this] format_entry_None Inr None show ?thesis by auto
    next
      case (Some fi)
      with Inr Cons.prems have "collect_formats fs (acc @ [fi]) = Inr formats" by simp
      from Cons.IH [OF this] obtain new where
        "formats = (acc @ [fi]) @ new"
        "list_all2 (\<lambda>f fi. format_entry f = Inr (Some fi)) (filter kept fs) new" by blast
      with format_entry_Some Inr Some show ?thesis by auto
    qed
  qed
qed

lemma split_formats_acc:
  "split_formats formats vs as =
     (vs @ filter has_video formats, as @ filter (\<lambda>f. \<not> has_video f \<and> has_audio f) formats)"
  by (induction formats arbitrary: vs as) auto

lemma split_formats_app:
  "split_formats formats [] [] = (app_video_formats formats, app_audio_formats formats)"
  by (simp add: split_formats_acc app_video_formats_def app_audio_formats_def)

lemma collect_formats_entries:
  "collect_formats raw acc = Inr formats \<Longrightarrow> f \<in> set raw \<Longrightarrow> \<exists>r. format_entry f = Inr r"
  by (induction raw arbitrary: acc) (auto split: sum.splits option.splits)

lemma get_available_formats_collect:
  "get_available_formats (Inr info) = Some cat \<Longrightarrow>
     collect_formats (all_raw info) [] = Inr (cat_formats cat)"
  by (auto simp: get_available_formats_def all_raw_def Let_def split: sum.splits option.splits)

lemma built_tracks:
  assumes "collect_formats raw [] = Inr formats" and "fi \<in> set formats"
  shows "has_video fi \<or> (has_audio fi \<and> ext fi = PStr ''mp3'')"
proof -
  from collect_formats_acc [OF assms(1)]
  have "list_all2 (\<lambda>f fi. format_entry f = Inr (Some fi)) (filter kept raw) formats" by simp
  then have len: "length (filter kept raw) = length formats"
    and nth: "\<And>i. i < length formats \<Longrightarrow>
                format_entry (filter kept raw ! i) = Inr (Some (formats ! i))"
    by (simp_all add: list_all2_conv_all_nth)
  from assms(2) obtain i where i: "i < length formats" "fi = formats ! i"
    by (auto simp: in_set_conv_nth)
  define f where "f = filter kept raw ! i"
  have "f \<in> set (filter kept raw)" unfolding f_def by (rule nth_mem) (simp add: len i)
  moreover have "format_entry f = Inr (Some fi)" using nth [OF i(1)] i(2) by (simp add: f_def)
  ultimately have "f \<in> set (filter kept raw)" "format_entry f = Inr (Some fi)" by blast+
  then have "kept f" "has_video fi = raw_has_video f" "has_audio fi = raw_has_audio f"
    "ext fi = dict_get f ''ext'' (PStr ''N/A'')"
    using format_entry_tracks by auto
  then show ?thesis by (auto simp: kept_def raw_is_mp3_def)
qed

text \<open>
  What the builder keeps.  For every answer of the collaborator for which a catalog is
  built, the catalog holds, in the collaborator's order, the raw descriptors that have
  a video track or have an audio track in the \<open>mp3\<close> container, and no other.  The loop
  of \<open>display_formats_and_select\<close> then splits the catalog into the video-capable
  entries and the audio-only entries, each in catalog order, and every entry falls in
  one of the two.
\<close>

lemma catalog_keeps_video_and_mp3_audio:
  assumes "get_available_formats (Inr info) = Some cat"
  shows "list_all2 (\<lambda>f fi. format_entry f = Inr (Some fi))
           (filter kept (all_raw info)) (cat_formats cat)
       \<and> (\<forall>f \<in> set (all_raw info). format_entry f = Inr None \<longleftrightarrow> \<not> kept f)
       \<and> split_formats (cat_formats cat) [] [] =
           (filter has_video (cat_formats cat),
            filter (\<lambda>fi. \<not> has_video fi \<and> has_audio fi) (cat_formats cat))
       \<and> (\<forall>fi \<in> set (cat_formats cat). has_video fi \<or> (has_audio fi \<and> ext fi = PStr ''mp3''))"
proof -
  note c = get_available_formats_collect [OF assms]
  have 1: "list_all2 (\<lambda>f fi. format_entry f = Inr (Some fi))
             (filter kept (all_raw info)) (cat_formats cat)"
    using collect_formats_acc [OF c] by simp
  have 2: "\<forall>f \<in> set (all_raw info). format_entry f = Inr None \<longleftrightarrow> \<not> kept f"
  proof
    fix f assume "f \<in> set (all_raw info)"
    from collect_formats_entries [OF c this] obtain r where r: "format_entry f = Inr r" ..
    show "format_entry f = Inr None \<longleftrightarrow> \<not> kept f"
      using r format_entry_None [of f] format_entry_Some [of f] by (cases r) auto
  qed
  have 3: "split_formats (cat_formats cat) [] [] =
           (filter has_video (cat_formats cat),
            filter (\<lambda>fi. \<not> has_video fi \<and> has_audio fi) (cat_formats cat))"
    by (simp add: split_formats_acc)
  have 4: "\<forall>fi \<in> set (cat_formats cat). has_video fi \<or> (has_audio fi \<and> ext fi = PStr ''mp3'')"
    using built_tracks [OF c] by blast
  from 1 2 3 4 show ?thesis by blast
qed

text \<open>
  A concrete answer: a storyboard, an mp3 audio stream, an m4a audio stream and an mp4
  video stream.
\<close>

lemma example_catalog:
  "get_available_formats (Inr example_info) =
     Some \<lparr> cat_title = PStr ''Title'', cat_formats = example_formats \<rparr>"
  by (simp add: get_available_formats_def duration_str_def example_info_def
      example_formats_def format_entry_def filesize_str_def div_MB_small dict_get_def
      storyboard_def mp3_audio_def m4a_audio_def mp4_video_def Let_def)

text \<open>
  Claim C1 at an input where the code falls short of it.  An audio-only descriptor in
  the \<open>m4a\<close> container has a decodable audio track and no video track.  The comment of
  line 55 says that formats without video are skipped unless they are audio-only, and
  lines 95-96 and 109 list audio-only entries of any container; the condition of line
  56 lets through only those whose extension is \<open>mp3\<close>, so the descriptor is dropped
  and the catalog built from it is empty.
\<close>

theorem audio_only_m4a_dropped:
  "raw_has_audio m4a_audio \<and> \<not> raw_has_video m4a_audio
   \<and> format_entry m4a_audio = Inr None
   \<and> get_available_formats (Inr m4a_info) =
       Some \<lparr> cat_title = PStr ''Unknown Title'', cat_formats = [] \<rparr>"
  by (simp add: get_available_formats_def duration_str_def m4a_info_def format_entry_def
      filesize_str_def dict_get_def raw_has_audio_def raw_has_video_def m4a_audio_def Let_def)

subsection \<open>Display order and Selection Resolver\<close>

lemma length_enumerate_from: "length (enumerate_from k xs) = length xs"
  by (induction xs arbitrary: k) auto

lemma nth_enumerate_from: "i < length xs \<Longrightarrow> enumerate_from k xs ! i = (k + i, xs ! i)"
  by (induction xs arbitrary: k i) (auto simp: nth_Cons split: nat.splits)

lemma map_snd_enumerate_from: "map snd (enumerate_from k xs) = xs"
  by (induction xs arbitrary: k) auto

lemma video_rows_content:
  "r \<in> set (map (\<lambda>(i, fmt). video_row i fmt) (enumerate_from k vs)) \<Longrightarrow>
     video_capable_row r \<and> \<not> audio_only_row r"
  by (auto simp: video_row_def video_capable_row_def audio_only_row_def split: if_splits)

lemma audio_rows_content:
  "r \<in> set (map (\<lambda>(i, fmt). audio_row (i + n) fmt) (enumerate_from k as)) \<Longrightarrow>
     audio_only_row r \<and> \<not> video_capable_row r"
  by (auto simp: audio_row_def video_capable_row_def audio_only_row_def)

lemma best_rows_content:
  "\<not> video_capable_row (best_row n) \<and> \<not> audio_only_row (best_row n) \<and>
   \<not> video_capable_row (best_audio_row n) \<and> \<not> audio_only_row (best_audio_row n)"
  by (simp add: best_row_def best_audio_row_def video_capable_row_def audio_only_row_def)

lemma video_before_audio:
  assumes rows: "rows = vrows @ arows @ trail"
    and v: "\<And>r. r \<in> set vrows \<Longrightarrow> \<not> audio_only_row r"
    and a: "\<And>r. r \<in> set arows \<Longrightarrow> \<not> video_capable_row r"
    and t: "\<And>r. r \<in> set trail \<Longrightarrow> \<not> video_capable_row r \<and> \<not> audio_only_row r"
    and i: "i < length rows" "video_capable_row (rows ! i)"
    and j: "j < length rows" "audio_only_row (rows ! j)"
  shows "i < j"
proof -
  have iv: "i < length vrows"
  proof (rule ccontr)
    assume "\<not> i < length vrows"
    then have "rows ! i = (arows @ trail) ! (i - length vrows)" "i - length vrows < length (arows @ trail)"
      using i(1) by (auto simp: rows nth_append)
    then have "rows ! i \<in> set (arows @ trail)" by (metis nth_mem)
    with a t i(2) show False by auto
  qed
  have "\<not> j < length vrows"
  proof
    assume "j < length vrows"
    then have "rows ! j \<in> set vrows" by (simp add: rows nth_append)
    with v j(2) show False by auto
  qed
  with iv show ?thesis by simp
qed

lemma table_rows_order:
  assumes "rows = table_rows vs as n" "i < length rows" "video_capable_row (rows ! i)"
    "j < length rows" "audio_only_row (rows ! j)"
  shows "i < j"
proof (rule video_before_audio [where trail = "[best_row n, best_audio_row (n + 1)]"])
  show "rows = map (\<lambda>(i, fmt). video_row i fmt) (enumerate_from 0 vs)
     @ map (\<lambda>(i, fmt). audio_row (i + length vs) fmt) (enumerate_from 0 as)
     @ [best_row n, best_audio_row (n + 1)]"
    using assms(1) by (simp add: table_rows_def)
  show "\<And>r. r \<in> set (map (\<lambda>(i, fmt). video_row i fmt) (enumerate_from 0 vs)) \<Longrightarrow> \<not> audio_only_row r"
    using video_rows_content by blast
  show "\<And>r. r \<in> set (map (\<lambda>(i, fmt). audio_row (i + length vs) fmt) (enumerate_from 0 as))
          \<Longrightarrow> \<not> video_capable_row r"
    using audio_rows_content by blast
  show "\<And>r. r \<in> set [best_row n, best_audio_row (n + 1)] \<Longrightarrow>
          \<not> video_capable_row r \<and> \<not> audio_only_row r"
    using best_rows_content by auto
qed (use assms in auto)

lemma table_rows_ids:
  "\<exists>entries. table_rows vs as n = entries @ [best_row n, best_audio_row (n + 1)] \<and>
     map col_format_id entries = map (CellVal \<circ> format_id) (vs @ as)"
proof -
  have 1: "map col_format_id (map (\<lambda>(i, fmt). video_row i fmt) (enumerate_from k xs))
             = map (CellVal \<circ> format_id) xs" for k xs
    by (induction xs arbitrary: k) (auto simp: video_row_def)
  have 2: "map col_format_id (map (\<lambda>(i, fmt). audio_row (i + m) fmt) (enumerate_from k xs))
             = map (CellVal \<circ> format_id) xs" for k m xs
    by (induction xs arbitrary: k) (auto simp: audio_row_def)
  show ?thesis
    unfolding table_rows_def
    by (rule exI [where x = "map (\<lambda>(i, fmt). video_row i fmt) (enumerate_from 0 vs)
        @ map (\<lambda>(i, fmt). audio_row (i + length vs) fmt) (enumerate_from 0 as)"])
       (simp add: 1 2 del: map_map)
qed

lemma print_rows_prefix: "\<exists>k. fst (print_rows rs) = take k rs"
proof (induction rs)
  case Nil
  then show ?case by simp
next
  case (Cons r rs)
  then obtain k where k: "fst (print_rows rs) = take k rs" ..
  show ?case
  proof (cases "row_printable r")
    case True
    then have "fst (print_rows (r # rs)) = take (Suc k) (r # rs)"
      using k by (cases "print_rows rs") simp
    then show ?thesis ..
  next
    case False
    then have "fst (print_rows (r # rs)) = take 0 (r # rs)" by simp
    then show ?thesis ..
  qed
qed

lemma print_rows_all: "list_all row_printable rs \<Longrightarrow> print_rows rs = (rs, None)"
  by (induction rs) auto

lemma cli_table:
  "(case split_formats formats [] [] of
      (video_formats, audio_formats) \<Rightarrow> table_rows video_formats audio_formats (length formats))
   = format_data formats"
  by (simp add: split_formats_app format_data_def)

lemma display_printed:
  "fst (display_formats_and_select (Some \<lparr> cat_title = t, cat_formats = formats \<rparr>) selection)
     = fst (print_rows (format_data formats))"
  by (simp add: display_formats_and_select_def split_formats_app format_data_def Let_def
      split: prod.splits option.splits)

text \<open>
  Where the table has its order.  In the table of the browser surface every
  video-capable row comes before every audio-only row, and after the rows of the
  catalog entries come the row of the best combined format (\<open>best\<close>, \<open>mp4\<close>, numbered
  \<open>len(formats)\<close>) and then the row of the best audio (\<open>bestaudio\<close>, \<open>mp3\<close>, numbered
  \<open>len(formats) + 1\<close>).  The command-line surface prints the same table when every
  cell can be printed, and a beginning of it otherwise.
\<close>

lemma displayed_order:
  "(\<forall>i j. i < length (format_data formats) \<and> j < length (format_data formats) \<and>
          video_capable_row (format_data formats ! i) \<and>
          audio_only_row (format_data formats ! j) \<longrightarrow> i < j)
   \<and> (\<exists>entries.
         format_data formats =
           entries @ [\<lparr> col_id = length formats, col_format_id = CellVal (PStr ''best''),
                        col_resolution = CellVal (PStr ''best''),
                        col_fps = CellVal (PStr ''auto''), col_size = CellVal (PStr ''auto''),
                        col_type = CellVal (PStr ''mp4''), col_content = ''Best quality'' \<rparr>,
                      \<lparr> col_id = length formats + 1,
                        col_format_id = CellVal (PStr ''bestaudio''),
                        col_resolution = CellVal (PStr ''audio''),
                        col_fps = CellVal (PStr ''auto''), col_size = CellVal (PStr ''auto''),
                        col_type = CellVal (PStr ''mp3''), col_content = ''Best audio'' \<rparr>] \<and>
         map col_format_id entries =
           map (CellVal \<circ> format_id)
             (filter has_video formats @ filter (\<lambda>f. \<not> has_video f \<and> has_audio f) formats))
   \<and> (\<exists>k. fst (display_formats_and_select
                 (Some \<lparr> cat_title = t, cat_formats = formats \<rparr>) selection)
            = take k (format_data formats))
   \<and> (list_all row_printable (format_data formats) \<longrightarrow>
        display_formats_and_select
          (Some \<lparr> cat_title = t, cat_formats = formats \<rparr>) selection
          = (format_data formats, resolve_selection formats selection))"
proof -
  have 1: "\<forall>i j. i < length (format_data formats) \<and> j < length (format_data formats) \<and>
          video_capable_row (format_data formats ! i) \<and>
          audio_only_row (format_data formats ! j) \<longrightarrow> i < j"
    using table_rows_order [OF format_data_def] by blast
  have 2: "\<exists>entries.
         format_data formats =
           entries @ [\<lparr> col_id = length formats, col_format_id = CellVal (PStr ''best''),
                        col_resolution = CellVal (PStr ''best''),
                        col_fps = CellVal (PStr ''auto''), col_size = CellVal (PStr ''auto''),
                        col_type = CellVal (PStr ''mp4''), col_content = ''Best quality'' \<rparr>,
                      \<lparr> col_id = length formats + 1,
                        col_format_id = CellVal (PStr ''bestaudio''),
                        col_resolution = CellVal (PStr ''audio''),
                        col_fps = CellVal (PStr ''auto''), col_size = CellVal (PStr ''auto''),
                        col_type = CellVal (PStr ''mp3''), col_content = ''Best audio'' \<rparr>] \<and>
         map col_format_id entries =
           map (CellVal \<circ> format_id)
             (filter has_video formats @ filter (\<lambda>f. \<not> has_video f \<and> has_audio f) formats)"
    using table_rows_ids [of "app_video_formats formats" "app_audio_formats formats" "length formats"]
    by (simp add: format_data_def app_video_formats_def app_audio_formats_def
        best_row_def best_audio_row_def)
  have 3: "\<exists>k. fst (display_formats_and_select
                 (Some \<lparr> cat_title = t, cat_formats = formats \<rparr>) selection)
            = take k (format_data formats)"
    using print_rows_prefix by (simp add: display_printed)
  have 4: "list_all row_printable (format_data formats) \<longrightarrow>
        display_formats_and_select
          (Some \<lparr> cat_title = t, cat_formats = formats \<rparr>) selection
          = (format_data formats, resolve_selection formats selection)"
    by (simp add: display_formats_and_select_def split_formats_app format_data_def
        print_rows_all Let_def)
  from 1 2 3 4 show ?thesis by blast
qed

text \<open>
  Claim C8 at an input where the code falls short of it.  The collaborator reports a
  video stream whose \<open>fps\<close> is \<open>None\<close>; the builder puts it in the catalog.  The
  command-line surface prints the cell with an alignment spec (line 103), which \<open>None\<close>
  does not support: the TypeError ends the table before its first row, the two
  synthesized rows are never shown, and \<open>download_with_yt_dlp\<close> returns \<open>False\<close>.  The
  browser surface converts every cell with \<open>str\<close> (lines 96-101) and shows the
  three rows.
\<close>

theorem cli_table_stops_at_none_cell:
  "no_fps_video ''fps'' = Some PNone
   \<and> get_available_formats (Inr no_fps_info) =
       Some \<lparr> cat_title = PStr ''Title'', cat_formats = no_fps_formats \<rparr>
   \<and> display_formats_and_select
       (Some \<lparr> cat_title = PStr ''Title'', cat_formats = no_fps_formats \<rparr>) []
       = ([], Inl TypeError)
   \<and> download_with_yt_dlp no_fps_cli_env ''/dl'' PNone False False = cli_fail
   \<and> map col_content (format_data no_fps_formats)
       = [''Video+Audio'', ''Best quality'', ''Best audio'']"
proof -
  have built: "get_available_formats (Inr no_fps_info) =
       Some \<lparr> cat_title = PStr ''Title'', cat_formats = no_fps_formats \<rparr>"
    by (simp add: get_available_formats_def duration_str_def no_fps_info_def
        no_fps_formats_def format_entry_def filesize_str_def dict_get_def no_fps_video_def
        Let_def)
  have shown: "display_formats_and_select
       (Some \<lparr> cat_title = PStr ''Title'', cat_formats = no_fps_formats \<rparr>) []
       = ([], Inl TypeError)"
    by (simp add: display_formats_and_select_def split_formats_acc table_rows_def
        no_fps_formats_def video_row_def row_printable_def Let_def)
  have failed: "download_with_yt_dlp no_fps_cli_env ''/dl'' PNone False False = cli_fail"
    by (simp add: download_with_yt_dlp_def choose_format_def no_fps_cli_env_def built shown)
  have rows: "map col_content (format_data no_fps_formats)
       = [''Video+Audio'', ''Best quality'', ''Best audio'']"
    by (simp add: format_data_def table_rows_def app_video_formats_def app_audio_formats_def
        no_fps_formats_def video_row_def best_row_def best_audio_row_def)
  have cell: "no_fps_video ''fps'' = Some PNone" by (simp add: no_fps_video_def)
  from cell built shown failed rows show ?thesis by simp
qed

lemma partition_lengths:
  "(\<And>x. x \<in> set xs \<Longrightarrow> P x \<or> Q x) \<Longrightarrow>
     length (filter P xs) + length (filter (\<lambda>x. \<not> P x \<and> Q x) xs) = length xs"
  by (induction xs) auto

lemma built_lengths:
  assumes "get_available_formats (Inr info) = Some cat"
  shows "length (filter has_video (cat_formats cat))
         + length (filter (\<lambda>f. \<not> has_video f \<and> has_audio f) (cat_formats cat))
         = length (cat_formats cat)"
proof (rule partition_lengths)
  fix x assume "x \<in> set (cat_formats cat)"
  with built_tracks [OF get_available_formats_collect [OF assms]]
  show "has_video x \<or> has_audio x" by blast
qed

lemma resolve_index_video:
  assumes "0 \<le> idx" "idx < int (length (filter has_video formats))"
  shows "resolve_index formats idx = Inr (format_id (filter has_video formats ! nat idx))"
  using assms by (simp add: resolve_index_def split_formats_acc list_item_def Let_def)

lemma resolve_index_audio:
  assumes "length (filter has_video formats)
           + length (filter (\<lambda>f. \<not> has_video f \<and> has_audio f) formats) = length formats"
    and "int (length (filter has_video formats)) \<le> idx" "idx < int (length formats)"
  shows "resolve_index formats idx =
           Inr (format_id (filter (\<lambda>f. \<not> has_video f \<and> has_audio f) formats
                             ! nat (idx - int (length (filter has_video formats)))))"
  using assms by (simp add: resolve_index_def split_formats_acc list_item_def Let_def)

lemma resolve_index_best:
  "resolve_index formats (int (length formats)) = Inr (PStr BEST)"
proof -
  have "length (filter has_video formats) \<le> length formats" by simp
  then show ?thesis
    by (simp add: resolve_index_def split_formats_acc Let_def del: length_filter_le)
qed

lemma resolve_index_best_audio:
  "resolve_index formats (int (length formats) + 1) = Inr (PStr BEST_AUDIO)"
proof -
  have "length (filter has_video formats) \<le> length formats" by simp
  then show ?thesis
    by (simp add: resolve_index_def split_formats_acc Let_def del: length_filter_le)
qed

lemma resolve_index_outside:
  assumes "idx < 0 \<or> int (length formats) + 2 \<le> idx"
  shows "resolve_index formats idx = Inr (PStr BEST)"
proof -
  have "length (filter has_video formats) \<le> length formats" by simp
  with assms show ?thesis
    by (auto simp: resolve_index_def split_formats_acc Let_def simp del: length_filter_le)
qed

lemma resolve_index_defined:
  assumes len: "length (filter has_video formats)
           + length (filter (\<lambda>f. \<not> has_video f \<and> has_audio f) formats) = length formats"
    and range: "0 \<le> idx" "idx < int (length formats) + 2"
  shows "\<exists>v. resolve_index formats idx = Inr v \<and>
             (v \<in> format_id ` set formats \<or> v = PStr BEST \<or> v = PStr BEST_AUDIO)"
proof -
  let ?vs = "filter has_video formats"
  let ?as = "filter (\<lambda>f. \<not> has_video f \<and> has_audio f) formats"
  consider (video) "idx < int (length ?vs)"
    | (audio) "int (length ?vs) \<le> idx" "idx < int (length formats)"
    | (best) "idx = int (length formats)"
    | (best_audio) "idx = int (length formats) + 1"
    using range by linarith
  then show ?thesis
  proof cases
    case video
    then have "nat idx < length ?vs" using range by simp
    then have "?vs ! nat idx \<in> set ?vs" by (rule nth_mem)
    then have "format_id (?vs ! nat idx) \<in> format_id ` set formats" by auto
    with resolve_index_video [OF range(1) video] show ?thesis by simp
  next
    case audio
    then have "nat (idx - int (length ?vs)) < length ?as" using len by linarith
    then have "?as ! nat (idx - int (length ?vs)) \<in> set ?as" by (rule nth_mem)
    then have "format_id (?as ! nat (idx - int (length ?vs))) \<in> format_id ` set formats" by auto
    with resolve_index_audio [OF len audio] show ?thesis by simp
  next
    case best
    then show ?thesis by (simp add: resolve_index_best)
  next
    case best_audio
    then show ?thesis by (simp add: resolve_index_best_audio)
  qed
qed

lemma resolve_selection_defined:
  assumes len: "length (filter has_video formats)
           + length (filter (\<lambda>f. \<not> has_video f \<and> has_audio f) formats) = length formats"
  shows "\<exists>v. resolve_selection formats selection = Inr v"
proof (cases "py_int selection")
  case None
  then show ?thesis by (simp add: resolve_selection_def)
next
  case (Some idx)
  show ?thesis
  proof (cases "0 \<le> idx \<and> idx < int (length formats) + 2")
    case True
    with resolve_index_defined [OF len] obtain v where "resolve_index formats idx = Inr v"
      by blast
    with Some show ?thesis by (simp add: resolve_selection_def)
  next
    case False
    then have "idx < 0 \<or> int (length formats) + 2 \<le> idx" by linarith
    from resolve_index_outside [OF this] Some show ?thesis
      by (simp add: resolve_selection_def)
  qed
qed

text \<open>
  Claim C3.  On a catalog that the builder produced, the resolver returns for every
  input line: no exception leaves lines 118-145.  Every integer in
  \<open>[0, len(formats) + 2)\<close> gives the id of a catalog entry or one of the two fallback
  expressions; every other integer, every line that is not a number and every blank
  line give the fallback \<open>best[ext=mp4]\<close>.
\<close>

lemma all_space_if_blank:
  assumes "strip s = []"
  shows "\<forall>c \<in> set s. is_space c"
proof -
  let ?t = "dropWhile is_space s"
  from assms have "dropWhile is_space (rev ?t) = []" by (simp add: strip_def)
  then have all: "\<forall>c \<in> set ?t. is_space c" by (simp add: dropWhile_eq_Nil_conv)
  have "?t = []"
  proof (rule ccontr)
    assume ne: "?t \<noteq> []"
    then have "\<not> is_space (hd ?t)" by (rule hd_dropWhile)
    moreover from ne have "hd ?t \<in> set ?t" by simp
    ultimately show False using all by blast
  qed
  then show ?thesis by (simp add: dropWhile_eq_Nil_conv)
qed

lemma space_starts_no_literal:
  "is_space c \<Longrightarrow> c \<noteq> CHR ''-'' \<and> c \<noteq> CHR ''+'' \<and> digit_val c = None"
  by (auto simp: is_space_def digit_val_def Let_def)

lemma blank_not_int:
  assumes "strip s = []"
  shows "py_int s = None"
proof (cases "int_strip s")
  case Nil
  then show ?thesis by (simp add: py_int_def)
next
  case (Cons c cs)
  have "set (int_strip s) \<subseteq> set s"
  proof
    fix x assume "x \<in> set (int_strip s)"
    then have "x \<in> set (dropWhile int_space (rev (dropWhile int_space s)))"
      by (simp add: int_strip_def)
    then have "x \<in> set (rev (dropWhile int_space s))" by (rule set_dropWhileD)
    then have "x \<in> set (dropWhile int_space s)" by simp
    then show "x \<in> set s" by (rule set_dropWhileD)
  qed
  with Cons all_space_if_blank [OF assms] have "is_space c" by auto
  from space_starts_no_literal [OF this] Cons show ?thesis
    by (simp add: py_int_def unsigned_literal_def)
qed

theorem selection_resolver_total:
  assumes "get_available_formats (Inr info) = Some cat"
  shows "(\<exists>v. resolve_selection (cat_formats cat) selection = Inr v)
       \<and> (\<forall>idx. 0 \<le> idx \<and> idx < int (length (cat_formats cat)) + 2 \<longrightarrow>
             (\<exists>v. resolve_index (cat_formats cat) idx = Inr v \<and>
                  (v \<in> format_id ` set (cat_formats cat) \<or> v = PStr BEST \<or> v = PStr BEST_AUDIO)))
       \<and> (\<forall>idx. idx < 0 \<or> int (length (cat_formats cat)) + 2 \<le> idx \<longrightarrow>
             resolve_index (cat_formats cat) idx = Inr (PStr BEST))
       \<and> (\<forall>idx. py_int selection = Some idx \<longrightarrow>
             resolve_selection (cat_formats cat) selection = resolve_index (cat_formats cat) idx)
       \<and> (py_int selection = None \<longrightarrow>
             resolve_selection (cat_formats cat) selection = Inr (PStr BEST))
       \<and> (strip selection = [] \<longrightarrow>
             resolve_selection (cat_formats cat) selection = Inr (PStr BEST))"
proof -
  note len = built_lengths [OF assms]
  have 1: "\<exists>v. resolve_selection (cat_formats cat) selection = Inr v"
    by (rule resolve_selection_defined [OF len])
  have 2: "\<forall>idx. 0 \<le> idx \<and> idx < int (length (cat_formats cat)) + 2 \<longrightarrow>
             (\<exists>v. resolve_index (cat_formats cat) idx = Inr v \<and>
                  (v \<in> format_id ` set (cat_formats cat) \<or> v = PStr BEST \<or> v = PStr BEST_AUDIO))"
    using resolve_index_defined [OF len] by blast
  have 3: "\<forall>idx. idx < 0 \<or> int (length (cat_formats cat)) + 2 \<le> idx \<longrightarrow>
             resolve_index (cat_formats cat) idx = Inr (PStr BEST)"
    using resolve_index_outside by blast
  have 4: "\<forall>idx. py_int selection = Some idx \<longrightarrow>
             resolve_selection (cat_formats cat) selection = resolve_index (cat_formats cat) idx"
    using blank_not_int [of selection] by (auto simp: resolve_selection_def)
  have 5: "py_int selection = None \<longrightarrow>
             resolve_selection (cat_formats cat) selection = Inr (PStr BEST)"
    by (simp add: resolve_selection_def)
  have 6: "strip selection = [] \<longrightarrow>
             resolve_selection (cat_formats cat) selection = Inr (PStr BEST)"
    by (simp add: resolve_selection_def)
  from 1 2 3 4 5 6 show ?thesis by blast
qed

lemma py_int_examples:
  "py_int ''1'' = Some 1" "py_int ''abc'' = None" "py_int '' 7 '' = Some 7" "strip ''  '' = []"
  "py_int ''-1'' = Some (- 1)" "py_int ''1_0'' = Some 10" "py_int ''1__0'' = None"
  "py_int [CHR 0x1C, CHR ''1''] = None"
  by (simp_all add: py_int_def int_strip_def int_space_def strip_def is_space_def
      unsigned_literal_def digit_val_def)

text \<open>
  The theorem at the example catalog, for the lines \<open>1\<close>, \<open>abc\<close> and a blank line,
  and for the indices 3 and 7.
\<close>

theorem selection_resolver_total_witness:
  "get_available_formats (Inr example_info) =
     Some \<lparr> cat_title = PStr ''Title'', cat_formats = example_formats \<rparr>
   \<and> (0::int) \<le> 3 \<and> (3::int) < int (length example_formats) + 2
   \<and> resolve_index example_formats 3 = Inr (PStr BEST_AUDIO)
   \<and> int (length example_formats) + 2 \<le> 7
   \<and> resolve_index example_formats 7 = Inr (PStr BEST)
   \<and> py_int ''1'' = Some 1
   \<and> resolve_selection example_formats ''1'' = resolve_index example_formats 1
   \<and> resolve_index example_formats 1 = Inr (PStr ''mp3-128'')
   \<and> py_int ''abc'' = None
   \<and> resolve_selection example_formats ''abc'' = Inr (PStr BEST)
   \<and> strip ''  '' = []
   \<and> resolve_selection example_formats ''  '' = Inr (PStr BEST)"
proof -
  note t = selection_resolver_total [OF example_catalog, simplified]
  have len: "int (length example_formats) = 2" by (simp add: example_formats_def)
  have a: "resolve_index example_formats 7 = Inr (PStr BEST)"
    using t [of "[]"] len by simp
  have b: "resolve_selection example_formats ''1'' = resolve_index example_formats 1"
    using t [of "''1''"] py_int_examples(1) by simp
  have c: "resolve_selection example_formats ''abc'' = Inr (PStr BEST)"
    using t [of "''abc''"] py_int_examples(2) by simp
  have d: "resolve_selection example_formats ''  '' = Inr (PStr BEST)"
    using t [of "''  ''"] py_int_examples(4) by simp
  have e: "resolve_index example_formats 3 = Inr (PStr BEST_AUDIO)"
    using resolve_index_best_audio [of example_formats] len by simp
  have f: "resolve_index example_formats 1 = Inr (PStr ''mp3-128'')"
    by (simp add: resolve_index_def split_formats_acc list_item_def example_formats_def)
  from a b c d e f len example_catalog py_int_examples show ?thesis by simp
qed

subsection \<open>Collision Policy Engine and final report\<close>

lemma title_example: "sanitized_title (Some (PStr ''Title'')) = Some ''Title''"
  by (simp add: sanitized_title_def replace_char_def)

lemma wants_mp3_examples:
  "wants_mp3 (PStr BEST_AUDIO) = Some True" "wants_mp3 (PStr BEST) = Some False"
  by (simp_all add: wants_mp3_def BEST_AUDIO_def BEST_def)

lemma truthy_examples: "BEST_AUDIO \<noteq> []" "BEST \<noteq> []"
  by (simp_all add: BEST_AUDIO_def BEST_def)

lemma paths_example:
  "path_join ''/dl'' ''Title.mp4'' = ''/dl/Title.mp4''"
  "path_join ''/dl'' ''Title.mp3'' = ''/dl/Title.mp3''"
  by (simp_all add: path_join_def)

text \<open>
  Claim C4 at an input where the code falls short of it.  The target directory holds
  \<open>Title.mp3\<close> and no \<open>Title.mp4\<close>; the format asks for audio extraction to mp3, so
  \<open>Title.mp3\<close> is the file the download will write.  The command-line surface checks
  only the \<open>.mp4\<close> path (lines 208-210): it shows no collision prompt and goes on
  to the download.  The browser surface, which checks both paths (lines 192-195), stops
  at the prompt on the same files (\<open>browser_sees_existing_mp3\<close> below).
\<close>

theorem cli_misses_existing_mp3:
  "path_exists (cli_env_example (\<lambda>p. p = ''/dl/Title.mp3'') ''n'') ''/dl/Title.mp3''
   \<and> wants_mp3 (PStr BEST_AUDIO) = Some True
   \<and> prompted (download_with_yt_dlp (cli_env_example (\<lambda>p. p = ''/dl/Title.mp3'') ''n'')
                 ''/dl'' (PStr BEST_AUDIO) False False) = False
   \<and> map_option postprocessors
         (invoked (download_with_yt_dlp (cli_env_example (\<lambda>p. p = ''/dl/Title.mp3'') ''n'')
                     ''/dl'' (PStr BEST_AUDIO) False False))
       = Some [\<lparr> pp_key = ''FFmpegExtractAudio'', preferredcodec = ''mp3'',
                  preferredquality = ''192'' \<rparr>]"
  by (simp add: download_with_yt_dlp_def choose_format_def cli_env_example_def title_example
      cli_options_def wants_mp3_examples cli_collision_def paths_example cli_download_def
      truthy_examples Let_def)

lemma browser_sees_existing_mp3:
  "stopped (download_with_streamlit (app_env_example only_mp3 only_mp3)
              ''/dl'' (PStr BEST_AUDIO) False 5 ''192'' session_init) = Some ''Title''"
  by (simp add: download_with_streamlit_def app_exists_def app_env_example_def title_example paths_example
      only_mp3_def session_init_def Let_def)

lemma prompted_cli_fail: "prompted cli_fail = False"
  by (simp add: cli_fail_def)

lemma prompted_cli_download: "prompted (cli_download env opts asked) = asked"
  by (simp add: cli_download_def split: option.splits)

lemma cli_collision_skip:
  assumes "prompted (cli_collision env out video_title force opts)"
    and "lower (response_input env) \<noteq> ''y''" "lower (response_input env) \<noteq> ''r''"
  shows "cli_collision env out video_title force opts =
           \<lparr> returned = True, invoked = None, prompted = True, success_reported = False \<rparr>"
  using assms by (simp add: cli_collision_def Let_def prompted_cli_download split: if_splits)

lemma download_skip:
  assumes "prompted (download_with_yt_dlp env out fid best force)"
    and "lower (response_input env) \<noteq> ''y''" "lower (response_input env) \<noteq> ''r''"
  shows "download_with_yt_dlp env out fid best force =
           \<lparr> returned = True, invoked = None, prompted = True, success_reported = False \<rparr>"
  using assms
  by (auto simp: download_with_yt_dlp_def prompted_cli_fail cli_collision_skip
      split: option.splits sum.splits)

text \<open>
  Claim C9.  When the collision prompt of the command-line surface was shown and the
  answer, lowered, is neither \<open>y\<close> nor \<open>r\<close> (the user skips), \<open>download_with_yt_dlp\<close>
  returns \<open>True\<close>, the download collaborator is not invoked, and the loop of \<open>main\<close>
  counts the url as a success.
\<close>

theorem skip_counts_as_success:
  assumes "prompted (download_with_yt_dlp env out fid best force)"
    and "lower (response_input env) \<noteq> ''y''" "lower (response_input env) \<noteq> ''r''"
  shows "returned (download_with_yt_dlp env out fid best force)
       \<and> invoked (download_with_yt_dlp env out fid best force) = None
       \<and> process_urls (env # envs) out fid best force success_count
           = process_urls envs out fid best force (success_count + 1)"
  using download_skip [OF assms] by simp

lemma skip_example:
  "download_with_yt_dlp (cli_env_example (\<lambda>p. p = ''/dl/Title.mp4'') ''n'')
     ''/dl'' (PStr BEST) False False
   = \<lparr> returned = True, invoked = None, prompted = True, success_reported = False \<rparr>"
  by (simp add: download_with_yt_dlp_def choose_format_def cli_env_example_def title_example
      cli_options_def wants_mp3_examples cli_collision_def paths_example cli_download_def
      truthy_examples lower_def lower_char_def Let_def)

text \<open>
  The theorem where \<open>Title.mp4\<close> exists and the user answers \<open>n\<close>.
\<close>

theorem skip_counts_as_success_witness:
  "prompted (download_with_yt_dlp (cli_env_example (\<lambda>p. p = ''/dl/Title.mp4'') ''n'')
               ''/dl'' (PStr BEST) False False)
   \<and> lower (response_input (cli_env_example (\<lambda>p. p = ''/dl/Title.mp4'') ''n'')) \<noteq> ''y''
   \<and> lower (response_input (cli_env_example (\<lambda>p. p = ''/dl/Title.mp4'') ''n'')) \<noteq> ''r''
   \<and> returned (download_with_yt_dlp (cli_env_example (\<lambda>p. p = ''/dl/Title.mp4'') ''n'')
                 ''/dl'' (PStr BEST) False False)
   \<and> invoked (download_with_yt_dlp (cli_env_example (\<lambda>p. p = ''/dl/Title.mp4'') ''n'')
                ''/dl'' (PStr BEST) False False) = None
   \<and> process_urls [cli_env_example (\<lambda>p. p = ''/dl/Title.mp4'') ''n'']
        ''/dl'' (PStr BEST) False False 0 = 1"
proof -
  let ?env = "cli_env_example (\<lambda>p. p = ''/dl/Title.mp4'') ''n''"
  have p: "prompted (download_with_yt_dlp ?env ''/dl'' (PStr BEST) False False)"
    by (simp add: skip_example)
  have y: "lower (response_input ?env) \<noteq> ''y''"
    by (simp add: cli_env_example_def lower_def lower_char_def)
  have r: "lower (response_input ?env) \<noteq> ''r''"
    by (simp add: cli_env_example_def lower_def lower_char_def)
  from skip_counts_as_success [OF p y r, of "[]" 0] p y r show ?thesis by simp
qed

lemma app_transfer_state: "state_after (app_transfer env out vt fid force cf aq s msgs) = s"
  by (simp add: app_transfer_def app_error_def Let_def
      split: option.splits prod.splits sum.splits)

lemma app_transfer_stopped: "stopped (app_transfer env out vt fid force cf aq s msgs) = None"
  by (simp add: app_transfer_def app_error_def Let_def
      split: option.splits prod.splits sum.splits)

lemma app_transfer_invoked:
  "wants_mp3 fid = Some audio \<Longrightarrow>
   \<exists>opts. app_invoked (app_transfer env out vt fid force cf aq s msgs) = Some opts \<and>
          overwrites opts = Some force \<and> outtmpl opts = path_join out (vt @ ''.%(ext)s'')"
  by (simp add: app_transfer_def Let_def split: option.splits prod.splits sum.splits)

lemma no_collision_app:
  assumes "app_title env = Inr t" "sanitized_title t = Some video_title"
    and "files_at_check env (path_join out (video_title @ ''.mp4'')) = None"
    and "files_at_check env (path_join out (video_title @ ''.mp3'')) = None"
    and "\<not> file_decision_made s"
  shows "download_with_streamlit env out fid force cf aq s =
           app_transfer env out video_title fid force cf aq s []"
  using assms by (simp add: download_with_streamlit_def app_exists_def Let_def)

lemma cli_options_overwrites:
  "cli_options out fid force = Some opts \<Longrightarrow>
     overwrites opts = (if force then Some True else None) \<and>
     outtmpl opts = path_join out ''%(title)s.%(ext)s''"
  by (auto simp: cli_options_def Let_def split: if_splits option.splits bool.splits)

lemma no_collision_cli:
  assumes "choose_format cenv requested best = Some fid" "extract_title cenv = Inr t"
    "sanitized_title t = Some video_title" "cli_options out fid force = Some opts"
    "\<not> path_exists cenv (path_join out (video_title @ ''.mp4''))"
  shows "download_with_yt_dlp cenv out requested best force = cli_download cenv opts False"
  using assms by (simp add: download_with_yt_dlp_def cli_collision_def Let_def)

text \<open>
  Claim C2, as amended.  When no candidate path exists, both surfaces go on to the
  download without asking, under the unchanged name, and the overwrite option follows
  the force flag: in the browser surface (no decision pending in the session) the
  option \<open>overwrites\<close> is the flag itself; in the command-line surface it is set to
  \<open>True\<close> when the flag is set and is absent otherwise.
\<close>

theorem no_collision_proceeds_with_force_flag:
  assumes "sanitized_title t = Some video_title"
  shows "(app_title env = Inr t
          \<and> files_at_check env (path_join out (video_title @ ''.mp4'')) = None
          \<and> files_at_check env (path_join out (video_title @ ''.mp3'')) = None
          \<and> \<not> file_decision_made s \<and> wants_mp3 fid = Some audio \<longrightarrow>
            stopped (download_with_streamlit env out fid force cf aq s) = None
          \<and> state_after (download_with_streamlit env out fid force cf aq s) = s
          \<and> (\<exists>opts. app_invoked (download_with_streamlit env out fid force cf aq s) = Some opts
                 \<and> overwrites opts = Some force
                 \<and> outtmpl opts = path_join out (video_title @ ''.%(ext)s'')))
       \<and> (extract_title cenv = Inr t \<and> choose_format cenv requested best = Some fid
          \<and> cli_options out fid force = Some copts
          \<and> \<not> path_exists cenv (path_join out (video_title @ ''.mp4'')) \<longrightarrow>
            download_with_yt_dlp cenv out requested best force = cli_download cenv copts False
          \<and> overwrites copts = (if force then Some True else None)
          \<and> outtmpl copts = path_join out ''%(title)s.%(ext)s'')"
proof (intro conjI impI)
  assume a: "app_title env = Inr t
          \<and> files_at_check env (path_join out (video_title @ ''.mp4'')) = None
          \<and> files_at_check env (path_join out (video_title @ ''.mp3'')) = None
          \<and> \<not> file_decision_made s \<and> wants_mp3 fid = Some audio"
  then have eq: "download_with_streamlit env out fid force cf aq s =
           app_transfer env out video_title fid force cf aq s []"
    using no_collision_app assms by blast
  show "stopped (download_with_streamlit env out fid force cf aq s) = None"
    by (simp add: eq app_transfer_stopped)
  show "state_after (download_with_streamlit env out fid force cf aq s) = s"
    by (simp add: eq app_transfer_state)
  show "\<exists>opts. app_invoked (download_with_streamlit env out fid force cf aq s) = Some opts
                 \<and> overwrites opts = Some force
                 \<and> outtmpl opts = path_join out (video_title @ ''.%(ext)s'')"
    using a app_transfer_invoked by (simp add: eq)
next
  assume c: "extract_title cenv = Inr t \<and> choose_format cenv requested best = Some fid
          \<and> cli_options out fid force = Some copts
          \<and> \<not> path_exists cenv (path_join out (video_title @ ''.mp4''))"
  then show "download_with_yt_dlp cenv out requested best force = cli_download cenv copts False"
    using no_collision_cli assms by blast
  from c show "overwrites copts = (if force then Some True else None)"
    using cli_options_overwrites by blast
  from c show "outtmpl copts = path_join out ''%(title)s.%(ext)s''"
    using cli_options_overwrites by blast
qed

text \<open>
  Claim C2 as stated fails when the force flag is set: no candidate path exists, and
  the download is started with \<open>overwrites = True\<close>.
\<close>

theorem force_sets_overwrite_without_collision:
  "files_at_check (app_env_example Map.empty only_mp4) ''/dl/Title.mp4'' = None
   \<and> files_at_check (app_env_example Map.empty only_mp4) ''/dl/Title.mp3'' = None
   \<and> stopped (download_with_streamlit (app_env_example Map.empty only_mp4)
                ''/dl'' (PStr BEST) True 5 ''192'' session_init) = None
   \<and> map_option overwrites
        (app_invoked (download_with_streamlit (app_env_example Map.empty only_mp4)
                        ''/dl'' (PStr BEST) True 5 ''192'' session_init))
      = Some (Some True)"
proof -
  have eq: "download_with_streamlit (app_env_example Map.empty only_mp4)
              ''/dl'' (PStr BEST) True 5 ''192'' session_init
            = app_transfer (app_env_example Map.empty only_mp4) ''/dl'' ''Title'' (PStr BEST)
                True 5 ''192'' session_init []"
    by (simp add: download_with_streamlit_def app_exists_def app_env_example_def title_example
        paths_example session_init_def Let_def)
  from app_transfer_invoked [OF wants_mp3_examples(2)]
  have "map_option overwrites
          (app_invoked (app_transfer (app_env_example Map.empty only_mp4) ''/dl'' ''Title''
                          (PStr BEST) True 5 ''192'' session_init []))
        = Some (Some True)" by fastforce
  then show ?thesis
    by (simp add: eq app_transfer_stopped) (simp add: app_env_example_def)
qed

text \<open>
  The theorem at a target with no file in the way, in both surfaces.
\<close>

lemma forced_opts_example: "cli_options ''/dl'' (PStr BEST) True = Some forced_opts"
  by (simp add: cli_options_def forced_opts_def truthy_examples wants_mp3_examples
      path_join_def Let_def)

theorem no_collision_proceeds_with_force_flag_witness:
  "sanitized_title (Some (PStr ''Title'')) = Some ''Title''
   \<and> app_title (app_env_example Map.empty only_mp4) = Inr (Some (PStr ''Title''))
   \<and> files_at_check (app_env_example Map.empty only_mp4)
        (path_join ''/dl'' (''Title'' @ ''.mp4'')) = None
   \<and> files_at_check (app_env_example Map.empty only_mp4)
        (path_join ''/dl'' (''Title'' @ ''.mp3'')) = None
   \<and> \<not> file_decision_made session_init
   \<and> wants_mp3 (PStr BEST) = Some False
   \<and> stopped (download_with_streamlit (app_env_example Map.empty only_mp4)
                ''/dl'' (PStr BEST) False 5 ''192'' session_init) = None
   \<and> state_after (download_with_streamlit (app_env_example Map.empty only_mp4)
                    ''/dl'' (PStr BEST) False 5 ''192'' session_init) = session_init
   \<and> extract_title (cli_env_example (\<lambda>p. False) []) = Inr (Some (PStr ''Title''))
   \<and> choose_format (cli_env_example (\<lambda>p. False) []) (PStr BEST) False = Some (PStr BEST)
   \<and> cli_options ''/dl'' (PStr BEST) True = Some forced_opts
   \<and> \<not> path_exists (cli_env_example (\<lambda>p. False) []) (path_join ''/dl'' (''Title'' @ ''.mp4''))
   \<and> download_with_yt_dlp (cli_env_example (\<lambda>p. False) []) ''/dl'' (PStr BEST) False True
       = cli_download (cli_env_example (\<lambda>p. False) []) forced_opts False
   \<and> overwrites forced_opts = Some True"
proof -
  let ?env = "app_env_example Map.empty only_mp4"
  let ?cenv = "cli_env_example (\<lambda>p. False) []"
  have a: "app_title ?env = Inr (Some (PStr ''Title''))
     \<and> files_at_check ?env (path_join ''/dl'' (''Title'' @ ''.mp4'')) = None
     \<and> files_at_check ?env (path_join ''/dl'' (''Title'' @ ''.mp3'')) = None
     \<and> \<not> file_decision_made session_init \<and> wants_mp3 (PStr BEST) = Some False"
    by (simp add: app_env_example_def session_init_def wants_mp3_examples)
  have c: "extract_title ?cenv = Inr (Some (PStr ''Title''))
     \<and> choose_format ?cenv (PStr BEST) False = Some (PStr BEST)
     \<and> cli_options ''/dl'' (PStr BEST) True = Some forced_opts
     \<and> \<not> path_exists ?cenv (path_join ''/dl'' (''Title'' @ ''.mp4''))"
    by (simp add: cli_env_example_def choose_format_def truthy_examples forced_opts_example)
  note t = no_collision_proceeds_with_force_flag [OF title_example,
      where env = ?env and out = "''/dl''" and s = session_init and fid = "PStr BEST"
        and audio = False and cenv = ?cenv and requested = "PStr BEST" and best = False
        and copts = forced_opts and cf = 5 and aq = "''192''"]
  from t [of False] t [of True] a c title_example show ?thesis by simp
qed

lemma reset_is_init: "reset_decision s = session_init"
  by (simp add: reset_decision_def session_init_def)

lemma state_after_call:
  "state_after (download_with_streamlit env out fid force cf aq s) = s \<or>
   state_after (download_with_streamlit env out fid force cf aq s) = session_init"
  by (simp add: download_with_streamlit_def app_exists_def app_error_def app_transfer_state reset_is_init
      Let_def split: sum.splits option.splits)

lemma reachable_undecided:
  "reachable s \<Longrightarrow> \<not> file_decision_made s \<Longrightarrow> s = session_init"
proof (induction rule: reachable.induct)
  case start
  show ?case by simp
next
  case (call s env output_path fid force cf aq)
  with state_after_call [of env output_path fid force cf aq s] show ?case by auto
next
  case (click_redownload s env output_path fid force cf aq video_title)
  then show ?case by (simp add: on_redownload_def)
next
  case (click_new_name s env output_path fid force cf aq video_title t)
  then show ?case by (simp add: on_new_name_def)
next
  case (click_skip s env output_path fid force cf aq video_title)
  then show ?case by (simp add: on_skip_def)
qed

lemma committed_decided:
  assumes "file_decision_made s"
    and "app_invoked (download_with_streamlit env out fid force cf aq s) \<noteq> None \<or>
         messages (download_with_streamlit env out fid force cf aq s) = [InfoSkipped]"
  shows "state_after (download_with_streamlit env out fid force cf aq s) = session_init"
  using assms
  by (auto simp: download_with_streamlit_def app_exists_def app_error_def app_transfer_state reset_is_init
      Let_def split: sum.splits option.splits if_splits)

text \<open>
  What the code does guarantee.  From every session state the program can reach, a
  call of \<open>download_with_streamlit\<close> that commits (it invokes the download, or it
  skips) leaves the initial session state, so the call after it runs as from the
  initial state.
\<close>

lemma decision_state_reset_after_commit:
  assumes "reachable s"
    and "app_invoked (download_with_streamlit env out fid force cf aq s) \<noteq> None \<or>
         messages (download_with_streamlit env out fid force cf aq s) = [InfoSkipped]"
  shows "state_after (download_with_streamlit env out fid force cf aq s) = session_init
       \<and> download_with_streamlit env' out' fid' force' cf' aq'
             (state_after (download_with_streamlit env out fid force cf aq s))
           = download_with_streamlit env' out' fid' force' cf' aq' session_init"
proof -
  have "state_after (download_with_streamlit env out fid force cf aq s) = session_init"
  proof (cases "file_decision_made s")
    case True
    from committed_decided [OF True assms(2)] show ?thesis .
  next
    case False
    with reachable_undecided [OF assms(1)] have "s = session_init" by simp
    with state_after_call [of env out fid force cf aq s] show ?thesis by auto
  qed
  then show ?thesis by simp
qed

lemma first_target_prompts:
  "stopped (download_with_streamlit (app_env_example only_mp4 only_mp4)
              ''/dl'' (PStr BEST) False 5 ''192'' session_init) = Some ''Title''
   \<and> state_after (download_with_streamlit (app_env_example only_mp4 only_mp4)
                    ''/dl'' (PStr BEST) False 5 ''192'' session_init) = session_init"
  by (simp add: download_with_streamlit_def app_exists_def app_env_example_def title_example
      paths_example only_mp4_def session_init_def Let_def)

lemma skip_click_reachable: "reachable (on_skip session_init)"
  using click_skip [OF start] first_target_prompts by blast

lemma other_title: "sanitized_title (Some (PStr ''Other'')) = Some ''Other''"
  by (simp add: sanitized_title_def replace_char_def)

lemma other_paths:
  "path_join ''/dl'' ''Other.mp4'' = ''/dl/Other.mp4''"
  "path_join ''/dl'' ''Other.mp3'' = ''/dl/Other.mp3''"
  by (simp_all add: path_join_def)

text \<open>
  Claim C5 at an input where the code falls short of it.  A download of \<open>Title\<close> finds
  \<open>Title.mp4\<close> and stops at the prompt; the user clicks Skip, and the callback stores
  the decision.  The decision is consumed by the next call of
  \<open>download_with_streamlit\<close>, whatever its target: the user now asks for \<open>Other\<close>,
  which has no file in the way, and the call shows \<open>Download skipped\<close> and downloads
  nothing, where from the initial state it would have downloaded.  The session state
  holds no target beside the decision (lines 14-20, 205-216), so the reset of lines
  239-248 comes too late for a decision taken at an earlier prompt.
\<close>

theorem decision_for_one_target_acts_on_the_next:
  "stopped (download_with_streamlit (app_env_example only_mp4 only_mp4)
              ''/dl'' (PStr BEST) False 5 ''192'' session_init) = Some ''Title''
   \<and> state_after (download_with_streamlit (app_env_example only_mp4 only_mp4)
                    ''/dl'' (PStr BEST) False 5 ''192'' session_init) = session_init
   \<and> files_at_check other_target ''/dl/Other.mp4'' = None
   \<and> files_at_check other_target ''/dl/Other.mp3'' = None
   \<and> messages (download_with_streamlit other_target
                 ''/dl'' (PStr BEST) False 5 ''192'' (on_skip session_init)) = [InfoSkipped]
   \<and> app_invoked (download_with_streamlit other_target
                    ''/dl'' (PStr BEST) False 5 ''192'' (on_skip session_init)) = None
   \<and> messages (download_with_streamlit other_target
                 ''/dl'' (PStr BEST) False 5 ''192'' session_init)
       = [SuccessSaved ''Video'' ''/dl/Other.mp4'' 1]"
proof -
  have skipped: "download_with_streamlit other_target
                   ''/dl'' (PStr BEST) False 5 ''192'' (on_skip session_init)
                 = \<lparr> state_after = session_init, messages = [InfoSkipped],
                     app_invoked = None, stopped = None, shown_progress = None \<rparr>"
    by (simp add: download_with_streamlit_def app_exists_def other_target_def other_title
        other_paths only_mp4_def session_init_def on_skip_def reset_decision_def Let_def)
  have fresh: "messages (download_with_streamlit other_target
                 ''/dl'' (PStr BEST) False 5 ''192'' session_init)
       = [SuccessSaved ''Video'' ''/dl/Other.mp4'' 1]"
    by (simp add: download_with_streamlit_def app_exists_def other_target_def other_title
        other_paths only_mp4_def session_init_def app_transfer_def wants_mp3_examples
        expected_file_def estimated_size_def div_MB_small Let_def)
  have absent: "files_at_check other_target ''/dl/Other.mp4'' = None"
    "files_at_check other_target ''/dl/Other.mp3'' = None"
    by (simp_all add: other_target_def only_mp4_def)
  from first_target_prompts skipped fresh absent show ?thesis by simp
qed

lemma app_transfer_verdict:
  assumes "app_invoked (app_transfer env out vt fid force cf aq s msgs) = Some opts"
    and "\<forall>e. ErrorShown e \<notin> set (messages (app_transfer env out vt fid force cf aq s msgs))"
  shows "\<exists>audio. wants_mp3 fid = Some audio
       \<and> outtmpl opts = path_join out (vt @ ''.%(ext)s'')
       \<and> messages (app_transfer env out vt fid force cf aq s msgs) =
           msgs @
           [case files_after_download env (fst (expected_file out vt audio)) of
              Some nbytes \<Rightarrow>
                SuccessSaved (snd (expected_file out vt audio)) (fst (expected_file out vt audio))
                  (of_nat nbytes / (1024 * 1024))
            | None \<Rightarrow> WarningNotFound (fst (expected_file out vt audio))]"
proof (cases "wants_mp3 fid")
  case None
  with assms(1) show ?thesis by (simp add: app_transfer_def app_error_def)
next
  case (Some audio)
  let ?w0 = "widgets_init\<lparr> file_size_text := map_option EstimatedSize (estimated_size env fid) \<rparr>"
  let ?path = "fst (expected_file out vt audio)"
  obtain w err where h: "run_hook ?w0 (progress_events env) = (w, err)"
    by (cases "run_hook ?w0 (progress_events env)")
  have err: "err = None"
  proof (cases err)
    case (Some e)
    with assms(2) h \<open>wants_mp3 fid = Some audio\<close> show ?thesis
      by (auto simp: app_transfer_def Let_def)
  qed simp
  have res: "app_download_result env = None"
  proof (cases "app_download_result env")
    case (Some e)
    with assms(2) h err \<open>wants_mp3 fid = Some audio\<close> show ?thesis
      by (auto simp: app_transfer_def Let_def)
  qed simp
  have out: "outtmpl opts = path_join out (vt @ ''.%(ext)s'')"
    using assms(1) app_transfer_invoked [OF \<open>wants_mp3 fid = Some audio\<close>,
        of env out vt force cf aq s msgs]
    by auto
  show ?thesis
  proof (cases "files_after_download env ?path")
    case None
    with h err res \<open>wants_mp3 fid = Some audio\<close> out show ?thesis
      by (simp add: app_transfer_def Let_def)
  next
    case (Some nbytes)
    note present = this
    show ?thesis
    proof (cases "div_MB (PNum (of_nat nbytes))")
      case (Inl e)
      with assms(2) h err res present \<open>wants_mp3 fid = Some audio\<close> show ?thesis
        by (auto simp: app_transfer_def Let_def)
    next
      case (Inr mb)
      then have "mb = of_nat nbytes / (1024 * 1024)"
        by (simp add: div_MB_def split: if_splits)
      with Inr h err res present \<open>wants_mp3 fid = Some audio\<close> out show ?thesis
        by (simp add: app_transfer_def Let_def)
    qed
  qed
qed

lemma call_is_transfer:
  assumes "app_invoked (download_with_streamlit env out fid force cf aq s) = Some opts"
  shows "\<exists>vt force' s' msgs.
           download_with_streamlit env out fid force cf aq s =
             app_transfer env out vt fid force' cf aq s' msgs
         \<and> (\<forall>e. ErrorShown e \<notin> set msgs)"
proof (cases "app_title env")
  case (Inl e)
  with assms show ?thesis by (simp add: download_with_streamlit_def app_exists_def app_error_def)
next
  case (Inr t)
  show ?thesis
  proof (cases "sanitized_title t")
    case None
    with Inr assms show ?thesis by (simp add: download_with_streamlit_def app_exists_def app_error_def)
  next
    case (Some video_title)
    let ?r = "download_with_streamlit env out fid force cf aq s"
    have tr: "\<And>vt force' s' msgs. ?r = app_transfer env out vt fid force' cf aq s' msgs \<Longrightarrow>
                (\<forall>e. ErrorShown e \<notin> set msgs) \<Longrightarrow> ?thesis" by blast
    have shapes:
      "app_invoked ?r = None
       \<or> ?r = app_transfer env out video_title fid True cf aq (reset_decision s)
                [InfoRedownloading]
       \<or> ?r = app_transfer env out (fstr (new_filename s)) fid force cf aq
                (reset_decision s) [InfoNewName (fstr (new_filename s))]
       \<or> ?r = app_transfer env out video_title fid force cf aq (reset_decision s) []
       \<or> ?r = app_transfer env out video_title fid force cf aq s []"
      using Inr Some by (simp add: download_with_streamlit_def app_exists_def Let_def)
    then show ?thesis
    proof (elim disjE)
      assume "app_invoked ?r = None"
      with assms show ?thesis by simp
    next
      assume "?r = app_transfer env out video_title fid True cf aq (reset_decision s)
                     [InfoRedownloading]"
      then show ?thesis by (rule tr) simp
    next
      assume "?r = app_transfer env out (fstr (new_filename s)) fid force cf aq
                     (reset_decision s) [InfoNewName (fstr (new_filename s))]"
      then show ?thesis by (rule tr) simp
    next
      assume "?r = app_transfer env out video_title fid force cf aq (reset_decision s) []"
      then show ?thesis by (rule tr) simp
    next
      assume "?r = app_transfer env out video_title fid force cf aq s []"
      then show ?thesis by (rule tr) simp
    qed
  qed
qed

text \<open>
  Claim C7, as amended.  In the browser surface, when the download call was made and
  no exception was shown, the last message is the verdict on the expected path,
  \<open>video_title.mp3\<close> for audio extraction and \<open>video_title.mp4\<close> otherwise: the success
  message with the size of the file in megabytes when the file is there, the warning
  naming the path when it is not.
\<close>

theorem browser_verifies_expected_path:
  assumes "app_invoked (download_with_streamlit env out fid force cf aq s) = Some opts"
    and "\<forall>e. ErrorShown e \<notin> set (messages (download_with_streamlit env out fid force cf aq s))"
  shows "\<exists>vt audio. wants_mp3 fid = Some audio
       \<and> outtmpl opts = path_join out (vt @ ''.%(ext)s'')
       \<and> last (messages (download_with_streamlit env out fid force cf aq s)) =
           (case files_after_download env (fst (expected_file out vt audio)) of
              Some nbytes \<Rightarrow>
                SuccessSaved (snd (expected_file out vt audio)) (fst (expected_file out vt audio))
                  (of_nat nbytes / (1024 * 1024))
            | None \<Rightarrow> WarningNotFound (fst (expected_file out vt audio)))"
proof -
  from call_is_transfer [OF assms(1)] obtain vt force' s' msgs where
    eq: "download_with_streamlit env out fid force cf aq s =
           app_transfer env out vt fid force' cf aq s' msgs" by blast
  from app_transfer_verdict [of env out vt fid force' cf aq s' msgs opts] assms
  obtain audio where "wants_mp3 fid = Some audio"
    "outtmpl opts = path_join out (vt @ ''.%(ext)s'')"
    "messages (download_with_streamlit env out fid force cf aq s) =
       msgs @
       [case files_after_download env (fst (expected_file out vt audio)) of
          Some nbytes \<Rightarrow>
            SuccessSaved (snd (expected_file out vt audio)) (fst (expected_file out vt audio))
              (of_nat nbytes / (1024 * 1024))
        | None \<Rightarrow> WarningNotFound (fst (expected_file out vt audio))]"
    unfolding eq by blast
  then show ?thesis by (intro exI [of _ vt] exI [of _ audio]) simp
qed

text \<open>
  Claim C7 as stated fails in the command-line surface, which prints its success
  line as soon as the download call returns and never looks at the expected path:
  here no file exists afterwards and success is reported.
\<close>

theorem cli_reports_success_unverified:
  "exists_after_download (cli_env_example (\<lambda>p. False) []) ''/dl/Title.mp4'' = False
   \<and> invoked (download_with_yt_dlp (cli_env_example (\<lambda>p. False) [])
                ''/dl'' (PStr BEST) False False) \<noteq> None
   \<and> returned (download_with_yt_dlp (cli_env_example (\<lambda>p. False) [])
                 ''/dl'' (PStr BEST) False False)
   \<and> success_reported (download_with_yt_dlp (cli_env_example (\<lambda>p. False) [])
                         ''/dl'' (PStr BEST) False False)"
  by (simp add: download_with_yt_dlp_def choose_format_def cli_env_example_def title_example
      cli_options_def wants_mp3_examples cli_collision_def paths_example cli_download_def
      truthy_examples Let_def)

text \<open>
  The theorem where the download has left \<open>Title.mp4\<close>, two megabytes long.
\<close>

lemma browser_run_example:
  "download_with_streamlit (app_env_example Map.empty only_mp4)
     ''/dl'' (PStr BEST) False 5 ''192'' session_init
   = \<lparr> state_after = session_init,
       messages = [SuccessSaved ''Video'' ''/dl/Title.mp4'' 2],
       app_invoked = Some browser_opts, stopped = None,
       shown_progress = Some widgets_init \<rparr>"
  by (simp add: download_with_streamlit_def app_exists_def app_env_example_def title_example paths_example
      session_init_def app_transfer_def wants_mp3_examples expected_file_def only_mp4_def
      browser_opts_def path_join_def estimated_size_def widgets_init_def div_MB_small
      Let_def)

theorem browser_verifies_expected_path_witness:
  "app_invoked (download_with_streamlit (app_env_example Map.empty only_mp4)
                  ''/dl'' (PStr BEST) False 5 ''192'' session_init) = Some browser_opts
   \<and> (\<forall>e. ErrorShown e \<notin> set (messages (download_with_streamlit
              (app_env_example Map.empty only_mp4) ''/dl'' (PStr BEST) False 5 ''192''
              session_init)))
   \<and> files_after_download (app_env_example Map.empty only_mp4) ''/dl/Title.mp4''
       = Some 2097152
   \<and> (\<exists>vt audio. wants_mp3 (PStr BEST) = Some audio
       \<and> outtmpl browser_opts = path_join ''/dl'' (vt @ ''.%(ext)s'')
       \<and> SuccessSaved ''Video'' ''/dl/Title.mp4'' 2 =
           (case files_after_download (app_env_example Map.empty only_mp4)
                   (fst (expected_file ''/dl'' vt audio)) of
              Some nbytes \<Rightarrow>
                SuccessSaved (snd (expected_file ''/dl'' vt audio))
                  (fst (expected_file ''/dl'' vt audio)) (of_nat nbytes / (1024 * 1024))
            | None \<Rightarrow> WarningNotFound (fst (expected_file ''/dl'' vt audio))))"
proof -
  let ?r = "download_with_streamlit (app_env_example Map.empty only_mp4)
              ''/dl'' (PStr BEST) False 5 ''192'' session_init"
  have i: "app_invoked ?r = Some browser_opts" by (simp add: browser_run_example)
  have e: "\<forall>e. ErrorShown e \<notin> set (messages ?r)" by (simp add: browser_run_example)
  have f: "files_after_download (app_env_example Map.empty only_mp4) ''/dl/Title.mp4''
             = Some 2097152"
    by (simp add: app_env_example_def only_mp4_def)
  have l: "last (messages ?r) = SuccessSaved ''Video'' ''/dl/Title.mp4'' 2"
    by (simp add: browser_run_example)
  from browser_verifies_expected_path [OF i e] i e f show ?thesis unfolding l by blast
qed

subsection \<open>Progress Reporter\<close>

lemma hook_speed_str_ok:
  "rate_ok v \<Longrightarrow> \<exists>r. hook_speed_str v = Inr r \<and> (r = SpeedNA \<longleftrightarrow> \<not> truthy v)"
  by (cases v) (auto simp: hook_speed_str_def div_MB_small rate_ok_def)

lemma hook_eta_str_ok:
  "\<not> is_str v \<Longrightarrow> \<exists>r. hook_eta_str v = Inr r \<and> (r = EtaNA \<longleftrightarrow> \<not> truthy v)"
  by (cases v) (auto simp: hook_eta_str_def is_str_def)

lemma falsy_field:
  "\<not> is_str (dict_get d k (PNum 0)) \<Longrightarrow>
     \<not> truthy (dict_get d k (PNum 0)) \<longleftrightarrow>
       (d k = None \<or> d k = Some PNone \<or> d k = Some (PNum 0))"
  by (cases "d k"; cases "the (d k)") (auto simp: dict_get_def is_str_def)

lemma rate_ok_not_str: "rate_ok v \<Longrightarrow> \<not> is_str v"
  by (cases v) (auto simp: rate_ok_def is_str_def)

lemma accepts_fraction:
  assumes "0 \<le> n" "0 < t"
  shows "progress_accepts (min (n / t) 1)"
proof -
  from assms have "0 \<le> n / t" by simp
  then have "0 \<le> min (n / t) 1" by simp
  moreover have "min (n / t) 1 \<le> 1" by simp
  moreover have "(0::rat) \<le> 1 / 10 ^ 9" by simp
  ultimately show ?thesis unfolding progress_accepts_def by linarith
qed

lemma hook_downloading:
  assumes st: "d ''status'' = Some (PStr ''downloading'')"
    and n: "dict_get d ''downloaded_bytes'' (PNum 0) = PNum n" "0 \<le> n" "n < 2 ^ 64"
    and t: "hook_total_bytes d = PNum t" "0 \<le> t" "t < 2 ^ 64"
    and sp: "hook_speed_str (dict_get d ''speed'' (PNum 0)) = Inr speed"
    and et: "hook_eta_str (dict_get d ''eta'' (PNum 0)) = Inr eta"
  shows "streamlit_progress_hook w d =
           (if 0 < t
            then (w\<lparr> progress_bar := min (n / t) 1, percent_text := Some (n / t),
                     status_text := Some (DownloadingAt speed),
                     file_size_text := Some (SizeOfTotal (n / (1024 * 1024)) (t / (1024 * 1024)) (n / t)),
                     eta_text := Some eta \<rparr>, None)
            else (w\<lparr> status_text := Some (DownloadingAt speed),
                     file_size_text := Some (SizeUnknownTotal (n / (1024 * 1024))),
                     eta_text := Some eta \<rparr>, None))"
proof -
  have dn: "div_MB (PNum n) = Inr (n / (1024 * 1024))" using n by (simp add: div_MB_small)
  have dt: "div_MB (PNum t) = Inr (t / (1024 * 1024))" using t by (simp add: div_MB_small)
  show ?thesis
  proof (cases "0 < t")
    case True
    with n(2) have "progress_accepts (min (n / t) 1)" by (simp add: accepts_fraction)
    with True st n(1) t(1) sp et dn dt show ?thesis
      by (simp add: streamlit_progress_hook_def hook_percentage_def hook_texts_def py_gt0_def
          py_div_def Let_def)
  next
    case False
    with t(2) have "t = 0" by simp
    with st n(1) t(1) sp et dn show ?thesis
      by (simp add: streamlit_progress_hook_def hook_percentage_def hook_texts_def py_gt0_def
          Let_def)
  qed
qed

text \<open>
  Where the hook of the browser surface reports without raising.  Take a
  \<open>downloading\<close> event in which \<open>downloaded_bytes\<close> is absent or a byte count, the total
  of line 287 is a byte count (it is 0 when \<open>total_bytes\<close> is absent, \<open>None\<close> or 0 and
  \<open>total_bytes_estimate\<close> is absent), \<open>speed\<close> is absent, \<open>None\<close> or a number and
  \<open>eta\<close> is not a string.  The hook does not raise.  It computes the percentage
  \<open>downloaded_bytes / total\<close> exactly when the total is positive; otherwise it leaves
  the percentage and the bar alone and reports the megabytes downloaded with an unknown
  total.  It shows \<open>N/A\<close> for the speed exactly when \<open>speed\<close> is absent, \<open>None\<close> or
  zero, and likewise for the remaining time.
\<close>

lemma hook_event_ok:
  assumes ok: "downloading_ok d"
    and n: "dict_get d ''downloaded_bytes'' (PNum 0) = PNum n"
    and t: "hook_total_bytes d = PNum t"
  shows "snd (streamlit_progress_hook w d) = None
       \<and> (0 < t \<longrightarrow>
            percent_text (fst (streamlit_progress_hook w d)) = Some (n / t)
          \<and> file_size_text (fst (streamlit_progress_hook w d)) =
              Some (SizeOfTotal (n / (1024 * 1024)) (t / (1024 * 1024)) (n / t)))
       \<and> (\<not> 0 < t \<longrightarrow>
            percent_text (fst (streamlit_progress_hook w d)) = percent_text w
          \<and> progress_bar (fst (streamlit_progress_hook w d)) = progress_bar w
          \<and> file_size_text (fst (streamlit_progress_hook w d)) =
              Some (SizeUnknownTotal (n / (1024 * 1024))))
       \<and> (status_text (fst (streamlit_progress_hook w d)) = Some (DownloadingAt SpeedNA) \<longleftrightarrow>
            (d ''speed'' = None \<or> d ''speed'' = Some PNone \<or> d ''speed'' = Some (PNum 0)))
       \<and> (eta_text (fst (streamlit_progress_hook w d)) = Some EtaNA \<longleftrightarrow>
            (d ''eta'' = None \<or> d ''eta'' = Some PNone \<or> d ''eta'' = Some (PNum 0)))"
proof -
  from ok have st: "d ''status'' = Some (PStr ''downloading'')"
    and rate: "rate_ok (dict_get d ''speed'' (PNum 0))"
    and et: "\<not> is_str (dict_get d ''eta'' (PNum 0))"
    and bn: "byte_count (dict_get d ''downloaded_bytes'' (PNum 0))"
    and bt: "byte_count (hook_total_bytes d)"
    by (simp_all add: downloading_ok_def)
  from bn n have n0: "0 \<le> n" "n < 2 ^ 64" by (simp_all add: byte_count_def)
  from bt t have t0: "0 \<le> t" "t < 2 ^ 64" by (simp_all add: byte_count_def)
  note sp = rate_ok_not_str [OF rate]
  from hook_speed_str_ok [OF rate] obtain speed where
    speed: "hook_speed_str (dict_get d ''speed'' (PNum 0)) = Inr speed"
      "speed = SpeedNA \<longleftrightarrow> \<not> truthy (dict_get d ''speed'' (PNum 0))" by blast
  from hook_eta_str_ok [OF et] obtain eta where
    eta: "hook_eta_str (dict_get d ''eta'' (PNum 0)) = Inr eta"
      "eta = EtaNA \<longleftrightarrow> \<not> truthy (dict_get d ''eta'' (PNum 0))" by blast
  note h = hook_downloading [OF st n n0 t t0 speed(1) eta(1), of w]
  have s: "speed = SpeedNA \<longleftrightarrow>
             (d ''speed'' = None \<or> d ''speed'' = Some PNone \<or> d ''speed'' = Some (PNum 0))"
    using speed(2) falsy_field [OF sp] by simp
  have e: "eta = EtaNA \<longleftrightarrow>
             (d ''eta'' = None \<or> d ''eta'' = Some PNone \<or> d ''eta'' = Some (PNum 0))"
    using eta(2) falsy_field [OF et] by simp
  show ?thesis
  proof (cases "0 < t")
    case True
    with h s e show ?thesis by simp
  next
    case False
    with h s e show ?thesis by simp
  qed
qed

lemma downloading_ok_fields:
  "downloading_ok d \<Longrightarrow>
     \<exists>n t. dict_get d ''downloaded_bytes'' (PNum 0) = PNum n \<and> hook_total_bytes d = PNum t"
  by (auto simp: downloading_ok_def byte_count_def split: pyval.splits)

lemma run_hook_ok: "\<forall>d \<in> set ds. downloading_ok d \<Longrightarrow> snd (run_hook w ds) = None"
proof (induction ds arbitrary: w)
  case Nil
  show ?case by simp
next
  case (Cons d ds)
  then have ok: "downloading_ok d" by simp
  from downloading_ok_fields [OF ok] obtain n t where
    "dict_get d ''downloaded_bytes'' (PNum 0) = PNum n" "hook_total_bytes d = PNum t" by blast
  from hook_event_ok [OF ok this, of w] have "snd (streamlit_progress_hook w d) = None" by simp
  then obtain w' where "streamlit_progress_hook w d = (w', None)"
    by (cases "streamlit_progress_hook w d") simp
  with Cons show ?case by simp
qed

text \<open>
  The hook of the command-line surface prints the collaborator's three strings, \<open>N/A\<close>
  for an absent one, and does not raise on a \<open>downloading\<close> event.
\<close>

lemma cli_hook_ok:
  "d ''status'' = Some (PStr ''downloading'') \<Longrightarrow>
     yt_dlp_progress_hook d =
       Inr (Some (Downloading (dict_get d ''_percent_str'' (PStr ''N/A''))
                              (dict_get d ''_speed_str'' (PStr ''N/A''))
                              (dict_get d ''_eta_str'' (PStr ''N/A''))))"
  by (simp add: yt_dlp_progress_hook_def)

lemma example_events_ok: "\<forall>d \<in> set [bare_event, half_event, over_event]. downloading_ok d"
  by (simp add: downloading_ok_def byte_count_def rate_ok_def is_str_def hook_total_bytes_def
      dict_get_def bare_event_def half_event_def over_event_def)

text \<open>
  Claim C6 at an input where the code falls short of it.  The event has its status and
  its byte counter; \<open>total_bytes\<close> is missing and \<open>total_bytes_estimate\<close> is \<open>None\<close>, so
  the total is unknown.  Line 287 guards against a missing or \<open>None\<close> \<open>total_bytes\<close>
  and against a missing estimate, but not against an estimate that is \<open>None\<close>: the
  total becomes \<open>None\<close> and the comparison of line 289 raises TypeError, before any
  widget is written.
\<close>

theorem null_estimate_raises:
  "null_estimate_event ''status'' = Some (PStr ''downloading'')
   \<and> null_estimate_event ''total_bytes'' = None
   \<and> null_estimate_event ''total_bytes_estimate'' = Some PNone
   \<and> hook_total_bytes null_estimate_event = PNone
   \<and> streamlit_progress_hook widgets_init null_estimate_event = (widgets_init, Some TypeError)"
  by (simp add: streamlit_progress_hook_def hook_percentage_def py_gt0_def
      hook_total_bytes_def dict_get_def null_estimate_event_def Let_def)

text \<open>
  The same guard misses a negative total, which is truthy but not positive: line 308
  reads \<open>percentage\<close> before it was assigned.  And Streamlit rejects the negative bar
  value that a negative byte counter gives.
\<close>

lemma negative_total_raises:
  "streamlit_progress_hook widgets_init negative_total_event =
     (widgets_init\<lparr> status_text := Some (DownloadingAt SpeedNA) \<rparr>, Some UnboundLocalError)"
  by (simp add: streamlit_progress_hook_def hook_percentage_def hook_texts_def py_gt0_def
      div_MB_small hook_total_bytes_def hook_speed_str_def hook_eta_str_def dict_get_def
      negative_total_event_def Let_def)

lemma negative_bar_rejected:
  "streamlit_progress_hook widgets_init negative_bytes_event =
     (widgets_init\<lparr> progress_bar := - (1 / 2) \<rparr>, Some StreamlitAPIException)"
  by (simp add: streamlit_progress_hook_def hook_percentage_def py_gt0_def py_div_def
      progress_accepts_def hook_total_bytes_def dict_get_def negative_bytes_event_def Let_def)

lemma hook_texts_bar:
  "progress_bar (fst (hook_texts w d a b p)) = progress_bar w"
  by (simp add: hook_texts_def Let_def split: sum.splits option.splits)

text \<open>
  Claim C10.  For a \<open>downloading\<close> event with a positive total, the value handed to
  the progress bar is \<open>min(downloaded_bytes / total, 1.0)\<close>, which is at most 1 also
  when more bytes were downloaded than the total announces.
\<close>

theorem progress_bar_clamped:
  assumes "d ''status'' = Some (PStr ''downloading'')"
    and "dict_get d ''downloaded_bytes'' (PNum 0) = PNum n"
    and "hook_total_bytes d = PNum t" and "0 < t"
  shows "progress_bar (fst (streamlit_progress_hook w d)) = min (n / t) 1
       \<and> progress_bar (fst (streamlit_progress_hook w d)) \<le> 1"
  using assms
  by (simp add: streamlit_progress_hook_def hook_percentage_def py_gt0_def py_div_def
      hook_texts_bar Let_def)

text \<open>
  The theorem at an event with 300 bytes downloaded of an estimated 200.
\<close>

lemma over_event_fields:
  "over_event ''status'' = Some (PStr ''downloading'')"
  "dict_get over_event ''downloaded_bytes'' (PNum 0) = PNum 300"
  "hook_total_bytes over_event = PNum 200"
  by (simp_all add: hook_total_bytes_def dict_get_def over_event_def)

theorem progress_bar_clamped_witness:
  "over_event ''status'' = Some (PStr ''downloading'')
   \<and> dict_get over_event ''downloaded_bytes'' (PNum 0) = PNum 300
   \<and> hook_total_bytes over_event = PNum 200
   \<and> (0::rat) < 200
   \<and> progress_bar (fst (streamlit_progress_hook widgets_init over_event)) = 1
   \<and> percent_text (fst (streamlit_progress_hook widgets_init over_event)) = Some (3 / 2)"
proof -
  have pos: "(0::rat) < 200" by simp
  have ok: "downloading_ok over_event" using example_events_ok by simp
  from hook_event_ok [OF ok over_event_fields(2,3), of widgets_init]
  have pct: "percent_text (fst (streamlit_progress_hook widgets_init over_event)) = Some (3 / 2)"
    by simp
  from progress_bar_clamped [OF over_event_fields pos, of widgets_init] over_event_fields pct
  show ?thesis by simp
qed

end
